theory Spec2Isabelle
  imports Main
begin

section \<open>Data model of \<open>persist/sqldb/sqldb.go\<close>\<close>

text \<open>
  Byte slices are strings. A Go \<open>map[string]string\<close> is a reference: the value held in a
  struct field is an address (or nil), the contents live in a store of maps, and two
  fields holding the same address see each other's writes.
\<close>

type_synonym bytes = string
type_synonym addr = nat
type_synonym gomap = "string \<rightharpoonup> string"

text \<open>
  Error values. \<open>InternalError m\<close> is \<open>errors.InternalError(m)\<close> and \<open>Errorf m\<close> is
  \<open>fmt.Errorf(m)\<close>; \<open>External m\<close> is an error value produced outside this file (the
  secret store, the TLS registry of the MySQL driver, the database client).
\<close>

datatype error = InternalError string | Errorf string | External string

text \<open>
  \<open>apiv1.SecretKeySelector\<close>: the embedded \<open>LocalObjectReference\<close> contributes \<open>Name\<close>;
  \<open>Optional\<close> is a \<open>*bool\<close>. The zero value has empty strings and a nil pointer.
\<close>

record SecretKeySelector =
  Name :: string
  Key :: string
  Optional :: "bool option"

definition SecretKeySelector_zero :: SecretKeySelector where
  "SecretKeySelector_zero = \<lparr>Name = [], Key = [], Optional = None\<rparr>"

text \<open>
  The configuration types of package \<open>config\<close>, with the fields this file reads.
  \<open>PostgreSQLConfig\<close> and \<open>MySQLConfig\<close> embed \<open>DatabaseConfig\<close>; the embedding is a
  record extension. \<open>Options\<close> of a MySQL configuration is a map reference.
\<close>

record DatabaseConfig =
  Host :: string
  Port :: int
  Database :: string
  TableName :: string
  UsernameSecret :: SecretKeySelector
  PasswordSecret :: SecretKeySelector

record PostgreSQLConfig = DatabaseConfig +
  SSL :: bool
  SSLMode :: string

record MySQLConfig = DatabaseConfig +
  Options :: "addr option"
  CaCertSecret :: SecretKeySelector

record ConnectionPool =
  MaxIdleConns :: int
  MaxOpenConns :: int
  ConnMaxLifetime :: int

record PersistConfig =
  ConnectionPool :: "ConnectionPool option"
  PostgreSQL :: "PostgreSQLConfig option"
  MySQL :: "MySQLConfig option"

text \<open>
  \<open>postgresql.ConnectionURL\<close> and \<open>mysql.ConnectionURL\<close> have the same fields; the
  type parameter is what \<open>Options\<close> holds: an address while the builder assembles the
  descriptor, the contents of the map once the client reads it in \<open>Open\<close>.
\<close>

record 'm ConnectionURL =
  User :: string
  Password :: string
  Host :: string
  Database :: string
  Options :: "'m option"

datatype backend = postgresql | mysql

text \<open>
  A session (\<open>sqlbuilder.Database\<close>) as far as this file can observe it: a handle that
  tells sessions apart and the three pool settings, each holding the value last given
  to its setter. Go's \<open>int\<close> and \<open>time.Duration\<close> values are integers; this file only
  copies them.
\<close>

record Session =
  handle :: nat
  maxOpen :: int
  maxIdle :: int
  maxLifetime :: int

type_synonym CertPool = "bytes list"

text \<open>
  Calls to the external collaborators, logged in the order they are made. An \<open>Exec\<close> is
  logged with the session it runs on.
\<close>

datatype call =
    GetSecretsCall string string string
  | RegisterTLSConfigCall string CertPool
  | OpenCall backend "gomap ConnectionURL"
  | ExecCall Session string

text \<open>
  The state a call can read and write: the store of Go maps with its allocation
  pointer, the process-wide TLS registry of the MySQL driver (a \<open>tls.Config\<close> is
  represented by its \<open>RootCAs\<close>, the only field set here), and the log of calls.
\<close>

record world =
  gomaps :: "addr \<Rightarrow> gomap"
  next_addr :: addr
  tlsConfigRegistry :: "string \<rightharpoonup> CertPool"
  calls :: "call list"

text \<open>
  The collaborators, taken as parameters. Each is a function of its arguments:
  \<open>secret_store ns name key\<close> is what \<open>util.GetSecrets\<close> returns, \<open>hostname\<close> is the
  method \<open>GetHostname\<close> of \<open>DatabaseConfig\<close>, \<open>pem_certs\<close> gives the certificates
  that \<open>AppendCertsFromPEM\<close> can parse out of a PEM block, \<open>tls_key_error\<close> is the
  error with which \<open>RegisterTLSConfig\<close> refuses a key, and \<open>exec_error\<close> is the error
  of \<open>session.Exec\<close> on a statement. The backend's \<open>Open\<close> is given by two functions:
  \<open>open_options\<close> is what it leaves in the options map it is handed (the adapters
  write their default options into that map), and \<open>open_result\<close> is what it returns
  for a descriptor, which may depend on the TLS profiles registered at that time.
\<close>

record env =
  secret_store :: "string \<Rightarrow> string \<Rightarrow> string \<Rightarrow> error + bytes"
  hostname :: "DatabaseConfig \<Rightarrow> string"
  pem_certs :: "bytes \<Rightarrow> bytes list"
  tls_key_error :: "string \<Rightarrow> error option"
  open_options :: "backend \<Rightarrow> gomap \<Rightarrow> gomap"
  open_result :: "backend \<Rightarrow> gomap ConnectionURL \<Rightarrow> (string \<rightharpoonup> CertPool) \<Rightarrow> error + Session"
  exec_error :: "Session \<Rightarrow> string \<Rightarrow> error option"

text \<open>
  What a Go function does: it returns its results, or panics (here only by
  dereferencing a nil pointer), or reaches a \<open>return\<close> statement whose list of values
  does not fit the declared results. Such a statement gives no result of the function:
  the compiler refuses it.
\<close>

datatype 'a go = Return 'a | Panic | IllTypedReturn

section \<open>The collaborators as state transformers\<close>

definition log_call :: "call \<Rightarrow> world \<Rightarrow> world" where
  "log_call c w = w\<lparr>calls := calls w @ [c]\<rparr>"

definition GetSecrets :: "env \<Rightarrow> string \<Rightarrow> string \<Rightarrow> string \<Rightarrow> world \<Rightarrow> world \<times> (error + bytes)" where
  "GetSecrets e namespace name key w =
     (log_call (GetSecretsCall namespace name key) w, secret_store e namespace name key)"

text \<open>\<open>map[string]string{...}\<close>: a fresh map with the given entries.\<close>

definition new_map :: "gomap \<Rightarrow> world \<Rightarrow> world \<times> addr" where
  "new_map m w =
     (w\<lparr>gomaps := (gomaps w)(next_addr w := m), next_addr := Suc (next_addr w)\<rparr>, next_addr w)"

text \<open>\<open>m[k] = v\<close> on the map at address \<open>a\<close>.\<close>

definition map_store :: "addr \<Rightarrow> string \<Rightarrow> string \<Rightarrow> world \<Rightarrow> world" where
  "map_store a k v w = w\<lparr>gomaps := (gomaps w)(a := (gomaps w a)(k \<mapsto> v))\<rparr>"

text \<open>
  \<open>x509.NewCertPool\<close> and \<open>AppendCertsFromPEM\<close>, which reports whether any certificate
  was parsed.
\<close>

definition NewCertPool :: CertPool where
  "NewCertPool = []"

definition AppendCertsFromPEM :: "env \<Rightarrow> CertPool \<Rightarrow> bytes \<Rightarrow> CertPool \<times> bool" where
  "AppendCertsFromPEM e pool pemCerts = (pool @ pem_certs e pemCerts, pem_certs e pemCerts \<noteq> [])"

definition RegisterTLSConfig :: "env \<Rightarrow> string \<Rightarrow> CertPool \<Rightarrow> world \<Rightarrow> world \<times> error option" where
  "RegisterTLSConfig e key config w =
     (let w1 = log_call (RegisterTLSConfigCall key config) w in
      case tls_key_error e key of
        Some err \<Rightarrow> (w1, Some err)
      | None \<Rightarrow> (w1\<lparr>tlsConfigRegistry := (tlsConfigRegistry w1)(key \<mapsto> config)\<rparr>, None))"

text \<open>
  The descriptor as the client reads it: the map behind \<open>Options\<close> is looked up.
  \<open>Open\<close> is logged with the descriptor it is called with; it then leaves its options
  in the map the descriptor refers to, if there is one, whether or not it succeeds, and
  its result is that of the client for this descriptor and the TLS registry.
\<close>

definition read_url :: "world \<Rightarrow> addr ConnectionURL \<Rightarrow> gomap ConnectionURL" where
  "read_url w settings =
     \<lparr>User = User settings, Password = Password settings, Host = ConnectionURL.Host settings,
      Database = ConnectionURL.Database settings,
      Options = map_option (gomaps w) (ConnectionURL.Options settings)\<rparr>"

definition Open :: "env \<Rightarrow> backend \<Rightarrow> addr ConnectionURL \<Rightarrow> world \<Rightarrow> world \<times> (error + Session)" where
  "Open e b settings w =
     (let w1 = log_call (OpenCall b (read_url w settings)) w;
          w2 = (case ConnectionURL.Options settings of
                  None \<Rightarrow> w1
                | Some a \<Rightarrow> w1\<lparr>gomaps := (gomaps w1)(a := open_options e b (gomaps w1 a))\<rparr>)
      in (w2, open_result e b (read_url w settings) (tlsConfigRegistry w)))"

text \<open>The setters of a session; each records the value it is given.\<close>

definition SetMaxOpenConns :: "int \<Rightarrow> Session \<Rightarrow> Session" where
  "SetMaxOpenConns n session = session\<lparr>maxOpen := n\<rparr>"

definition SetMaxIdleConns :: "int \<Rightarrow> Session \<Rightarrow> Session" where
  "SetMaxIdleConns n session = session\<lparr>maxIdle := n\<rparr>"

definition SetConnMaxLifetime :: "int \<Rightarrow> Session \<Rightarrow> Session" where
  "SetConnMaxLifetime d session = session\<lparr>maxLifetime := d\<rparr>"

definition Exec :: "env \<Rightarrow> Session \<Rightarrow> string \<Rightarrow> world \<Rightarrow> world \<times> error option" where
  "Exec e session query w = (log_call (ExecCall session query) w, exec_error e session query)"

section \<open>The functions of \<open>sqldb.go\<close>\<close>

definition GetTableName :: "PersistConfig option \<Rightarrow> (string \<times> error option) go" where
  "GetTableName persistConfig =
     (case persistConfig of
        None \<Rightarrow> Panic
      | Some pc \<Rightarrow>
          (let tableName =
                 (case PostgreSQL pc of
                    Some pg \<Rightarrow> TableName pg
                  | None \<Rightarrow> (case MySQL pc of Some my \<Rightarrow> TableName my | None \<Rightarrow> []))
           in if tableName = [] then Return ([], Some (InternalError ''TableName is empty''))
              else Return (tableName, None)))"

definition ConfigureDBSession :: "Session \<Rightarrow> ConnectionPool option \<Rightarrow> Session" where
  "ConfigureDBSession session persistPool =
     (case persistPool of
        Some p \<Rightarrow>
          SetConnMaxLifetime (ConnMaxLifetime p)
            (SetMaxIdleConns (MaxIdleConns p) (SetMaxOpenConns (MaxOpenConns p) session))
      | None \<Rightarrow> session)"

definition CreatePostGresDBSession ::
  "env \<Rightarrow> string \<Rightarrow> PostgreSQLConfig option \<Rightarrow> ConnectionPool option \<Rightarrow> world
     \<Rightarrow> world \<times> (Session option \<times> error option) go" where
  "CreatePostGresDBSession e namespace cfgp persistPool w =
     (case cfgp of
        None \<Rightarrow> (w, Panic)
      | Some cfg \<Rightarrow>
     (case GetSecrets e namespace (Name (UsernameSecret cfg)) (Key (UsernameSecret cfg)) w of
        (w1, Inl err) \<Rightarrow> (w1, Return (None, Some err))
      | (w1, Inr userNameByte) \<Rightarrow>
     (case GetSecrets e namespace (Name (PasswordSecret cfg)) (Key (PasswordSecret cfg)) w1 of
        (w2, Inl err) \<Rightarrow> (w2, Return (None, Some err))
      | (w2, Inr passwordByte) \<Rightarrow>
     (let settings = \<lparr>User = userNameByte, Password = passwordByte,
                      Host = hostname e (DatabaseConfig.truncate cfg),
                      Database = DatabaseConfig.Database cfg, Options = None\<rparr>;
          (w3, settings) =
            (if SSL cfg then
               if SSLMode cfg \<noteq> [] then
                 (case new_map [''sslmode'' \<mapsto> SSLMode cfg] w2 of
                    (w', options) \<Rightarrow> (w', settings\<lparr>ConnectionURL.Options := Some options\<rparr>))
               else (w2, settings)
             else (w2, settings))
      in case Open e postgresql settings w3 of
           (w4, Inl err) \<Rightarrow> (w4, Return (None, Some err))
         | (w4, Inr session) \<Rightarrow>
             (w4, Return (Some (ConfigureDBSession session persistPool), None))))))"

text \<open>
  \<open>CreateMySQLDBSession\<close> is given in three parts: the CA certificate block (the body
  of the \<open>if cfg.CaCertSecret != ...\<close>), the statements from \<open>mysql.Open\<close> to the end, and
  the function itself, which runs the first statements and then the two parts.

  The three statements \<open>return nil, "", err\<close> of the CA certificate block list three
  values where the function declares the two results \<open>(sqlbuilder.Database, error)\<close>:
  each is an ill-typed return. The block yields \<open>Some r\<close> where the function is left with
  \<open>r\<close>, and \<open>None\<close> where control reaches the statement after the block. \<open>opts\<close> is the
  map \<open>settings.Options\<close> refers to.

  The first statement executed on the session is \<open>SET NAMES 'utf8mb4'\<close>; its last
  character, the single quote, is written \<open>CHR 0x27\<close>.
\<close>

definition mysql_ca_cert ::
  "env \<Rightarrow> string \<Rightarrow> MySQLConfig \<Rightarrow> addr \<Rightarrow> world
     \<Rightarrow> world \<times> (Session option \<times> error option) go option" where
  "mysql_ca_cert e namespace cfg opts w =
     (if CaCertSecret cfg \<noteq> SecretKeySelector_zero then
        (case GetSecrets e namespace (Name (CaCertSecret cfg)) (Key (CaCertSecret cfg)) w of
           (w1, Inl err) \<Rightarrow> (w1, Some IllTypedReturn)
         | (w1, Inr caCertByte) \<Rightarrow>
        (case AppendCertsFromPEM e NewCertPool caCertByte of
           (rootCertPool, ok) \<Rightarrow>
        (if \<not> ok then (w1, Some IllTypedReturn)
         else
        (case RegisterTLSConfig e ''argo-ca-cert'' rootCertPool w1 of
           (w2, Some err) \<Rightarrow> (w2, Some IllTypedReturn)
         | (w2, None) \<Rightarrow> (map_store opts ''tls'' ''argo-ca-cert'' w2, None)))))
      else (w, None))"

definition mysql_open ::
  "env \<Rightarrow> addr ConnectionURL \<Rightarrow> ConnectionPool option \<Rightarrow> world
     \<Rightarrow> world \<times> (Session option \<times> error option) go" where
  "mysql_open e settings persistPool w =
     (case Open e mysql settings w of
        (w1, Inl err) \<Rightarrow> (w1, Return (None, Some err))
      | (w1, Inr session0) \<Rightarrow>
     (let session = ConfigureDBSession session0 persistPool in
      case Exec e session (''SET NAMES 'utf8mb4'' @ [CHR 0x27]) w1 of
        (w2, Some err) \<Rightarrow> (w2, Return (None, Some err))
      | (w2, None) \<Rightarrow>
     (case Exec e session ''SET CHARACTER SET utf8mb4'' w2 of
        (w3, Some err) \<Rightarrow> (w3, Return (None, Some err))
      | (w3, None) \<Rightarrow> (w3, Return (Some session, None)))))"

definition CreateMySQLDBSession ::
  "env \<Rightarrow> string \<Rightarrow> MySQLConfig option \<Rightarrow> ConnectionPool option \<Rightarrow> world
     \<Rightarrow> world \<times> (Session option \<times> error option) go" where
  "CreateMySQLDBSession e namespace cfgp persistPool w =
     (case cfgp of
        None \<Rightarrow> (w, Panic)
      | Some cfg \<Rightarrow>
     (if TableName cfg = [] then (w, Return (None, Some (InternalError ''tableName is empty'')))
      else
     (case GetSecrets e namespace (Name (UsernameSecret cfg)) (Key (UsernameSecret cfg)) w of
        (w1, Inl err) \<Rightarrow> (w1, Return (None, Some err))
      | (w1, Inr userNameByte) \<Rightarrow>
     (case GetSecrets e namespace (Name (PasswordSecret cfg)) (Key (PasswordSecret cfg)) w1 of
        (w2, Inl err) \<Rightarrow> (w2, Return (None, Some err))
      | (w2, Inr passwordByte) \<Rightarrow>
     (let settings = \<lparr>User = userNameByte, Password = passwordByte,
                      Host = hostname e (DatabaseConfig.truncate cfg),
                      Database = DatabaseConfig.Database cfg, Options = None\<rparr>;
          (w3, opts) =
            (case MySQLConfig.Options cfg of
               Some a \<Rightarrow> (w2, a)
             | None \<Rightarrow> new_map Map.empty w2);
          settings = settings\<lparr>ConnectionURL.Options := Some opts\<rparr>
      in case mysql_ca_cert e namespace cfg opts w3 of
           (w4, Some r) \<Rightarrow> (w4, r)
         | (w4, None) \<Rightarrow> mysql_open e settings persistPool w4)))))"

definition CreateDBSession ::
  "env \<Rightarrow> string \<Rightarrow> PersistConfig option \<Rightarrow> world
     \<Rightarrow> world \<times> (Session option \<times> error option) go" where
  "CreateDBSession e namespace persistConfig w =
     (case persistConfig of
        None \<Rightarrow> (w, Return (None, Some (InternalError ''Persistence config is not found'')))
      | Some pc \<Rightarrow>
          (case PostgreSQL pc of
             Some pg \<Rightarrow> CreatePostGresDBSession e namespace (Some pg) (ConnectionPool pc) w
           | None \<Rightarrow>
          (case MySQL pc of
             Some my \<Rightarrow> CreateMySQLDBSession e namespace (Some my) (ConnectionPool pc) w
           | None \<Rightarrow> (w, Return (None, Some (Errorf ''no databases are configured''))))))"

section \<open>Observing a run\<close>

text \<open>
  The calls made between a state and a later one; the error (if any) a logged call
  returned, where \<open>reg\<close> is the TLS registry at the time of an \<open>Open\<close>; and what a secret
  lookup through a selector returns and logs.
\<close>

definition calls_made :: "world \<Rightarrow> world \<Rightarrow> call list" where
  "calls_made w w' = drop (length (calls w)) (calls w')"

fun call_error :: "env \<Rightarrow> (string \<rightharpoonup> CertPool) \<Rightarrow> call \<Rightarrow> error option" where
  "call_error e reg (GetSecretsCall ns name key) =
     (case secret_store e ns name key of Inl err \<Rightarrow> Some err | Inr _ \<Rightarrow> None)"
| "call_error e reg (RegisterTLSConfigCall key config) = tls_key_error e key"
| "call_error e reg (OpenCall b url) =
     (case open_result e b url reg of Inl err \<Rightarrow> Some err | Inr _ \<Rightarrow> None)"
| "call_error e reg (ExecCall session query) = exec_error e session query"

definition lookup :: "env \<Rightarrow> string \<Rightarrow> SecretKeySelector \<Rightarrow> error + bytes" where
  "lookup e ns sel = secret_store e ns (Name sel) (Key sel)"

definition lookup_call :: "string \<Rightarrow> SecretKeySelector \<Rightarrow> call" where
  "lookup_call ns sel = GetSecretsCall ns (Name sel) (Key sel)"

text \<open>Whether a result carries a non-nil error.\<close>

fun returns_error :: "('a \<times> error option) go \<Rightarrow> bool" where
  "returns_error (Return (_, Some _)) = True"
| "returns_error _ = False"

text \<open>
  Calls to the database client; whether all calls of a list succeeded; whether no call
  of a list follows a failed one (all but the last succeeded); and whether every failed
  call of a list ends the function, which then returns the nil session with the error
  of that call or is left through an ill-typed return.
\<close>

fun is_db_call :: "call \<Rightarrow> bool" where
  "is_db_call (OpenCall b url) = True"
| "is_db_call (ExecCall s q) = True"
| "is_db_call _ = False"

definition succeeded :: "env \<Rightarrow> (string \<rightharpoonup> CertPool) \<Rightarrow> call list \<Rightarrow> bool" where
  "succeeded e reg cs = list_all (\<lambda>c. call_error e reg c = None) cs"

definition no_call_after_failure :: "env \<Rightarrow> (string \<rightharpoonup> CertPool) \<Rightarrow> call list \<Rightarrow> bool" where
  "no_call_after_failure e reg cs = succeeded e reg (butlast cs)"

definition failure_ends_call ::
  "env \<Rightarrow> (string \<rightharpoonup> CertPool) \<Rightarrow> call list \<Rightarrow> (Session option \<times> error option) go \<Rightarrow> bool"
  where
  "failure_ends_call e reg cs r =
     list_all (\<lambda>c. call_error e reg c = None \<or> r = Return (None, call_error e reg c) \<or>
                    r = IllTypedReturn) cs"

text \<open>
  The options a list of calls hands to \<open>Open\<close> under a key: one entry for each \<open>Open\<close>.
\<close>

definition opened_option :: "string \<Rightarrow> call list \<Rightarrow> string option list" where
  "opened_option k cs =
     concat (map (\<lambda>c. case c of
                          OpenCall b url \<Rightarrow>
                            [case ConnectionURL.Options url of None \<Rightarrow> None | Some m \<Rightarrow> m k]
                        | _ \<Rightarrow> []) cs)"

text \<open>
  The map the MySQL configuration shares with the descriptor: the options of the
  MySQL configuration when that is the backend selected. And its contents in a state.
\<close>

definition options_addr :: "PersistConfig option \<Rightarrow> addr option" where
  "options_addr pc =
     (case pc of
        None \<Rightarrow> None
      | Some c \<Rightarrow>
          (case PostgreSQL c of
             Some pg \<Rightarrow> None
           | None \<Rightarrow>
               (case MySQL c of None \<Rightarrow> None | Some my \<Rightarrow> MySQLConfig.Options my)))"

definition options_content :: "PersistConfig option \<Rightarrow> world \<Rightarrow> gomap option" where
  "options_content pc w = map_option (gomaps w) (options_addr pc)"

text \<open>
  Whether the backend selected is MySQL with a CA certificate secret, and the part of
  the TLS registry a call depends on: with a CA certificate secret the profile
  \<open>argo-ca-cert\<close> is registered anew before \<open>Open\<close>, so its earlier value is not read.
\<close>

definition uses_ca_cert :: "PersistConfig option \<Rightarrow> bool" where
  "uses_ca_cert pc =
     (case pc of
        None \<Rightarrow> False
      | Some c \<Rightarrow>
          (case PostgreSQL c of
             Some pg \<Rightarrow> False
           | None \<Rightarrow>
               (case MySQL c of
                  None \<Rightarrow> False
                | Some my \<Rightarrow> CaCertSecret my \<noteq> SecretKeySelector_zero)))"

definition registry_seen :: "PersistConfig option \<Rightarrow> world \<Rightarrow> (string \<rightharpoonup> CertPool)" where
  "registry_seen pc w =
     (if uses_ca_cert pc then (tlsConfigRegistry w)(''argo-ca-cert'' := None)
      else tlsConfigRegistry w)"

section \<open>Test doubles\<close>

text \<open>
  A secret store holding a user name, a password and a CA certificate under the secret
  \<open>argo-db\<close>, a PEM parser that accepts one block, a TLS registry that accepts every
  key, and a database client whose calls all succeed and whose \<open>Open\<close> fills in default
  options: \<open>charset\<close> and \<open>parseTime\<close> for MySQL, \<open>sslmode\<close> for PostgreSQL.
\<close>

definition store0 :: "string \<Rightarrow> string \<Rightarrow> string \<Rightarrow> error + bytes" where
  "store0 ns name key =
     (if name = ''argo-db'' \<and> key = ''username'' then Inr ''argo''
      else if name = ''argo-db'' \<and> key = ''password'' then Inr ''hunter2''
      else if name = ''argo-db'' \<and> key = ''ca.crt'' then Inr ''PEM''
      else if name = ''argo-db'' \<and> key = ''bad.crt'' then Inr ''garbage''
      else Inl (External ''secret not found''))"

definition session0 :: Session where
  "session0 = \<lparr>handle = 1, maxOpen = 0, maxIdle = 2, maxLifetime = 0\<rparr>"

definition default_option :: "string \<Rightarrow> string \<Rightarrow> gomap \<Rightarrow> gomap" where
  "default_option k v m = (if m k = None then m(k \<mapsto> v) else m)"

definition options0 :: "backend \<Rightarrow> gomap \<Rightarrow> gomap" where
  "options0 b m =
     (case b of
        mysql \<Rightarrow> default_option ''parseTime'' ''true'' (default_option ''charset'' ''utf8'' m)
      | postgresql \<Rightarrow>
          (if m ''sslmode'' = None \<or> m ''sslmode'' = Some [] then m(''sslmode'' \<mapsto> ''disable'')
           else m))"

definition env0 :: env where
  "env0 = \<lparr>secret_store = store0,
            hostname = DatabaseConfig.Host,
            pem_certs = (\<lambda>b. if b = ''PEM'' then [''DER''] else []),
            tls_key_error = (\<lambda>k. None),
            open_options = options0,
            open_result = (\<lambda>b url reg. Inr session0),
            exec_error = (\<lambda>s q. None)\<rparr>"

definition sel0 :: "string \<Rightarrow> SecretKeySelector" where
  "sel0 key = \<lparr>Name = ''argo-db'', Key = key, Optional = None\<rparr>"

definition pg0 :: PostgreSQLConfig where
  "pg0 = \<lparr>DatabaseConfig.Host = ''pg.example'', Port = 0, DatabaseConfig.Database = ''argo'', TableName = ''wf'',
           UsernameSecret = sel0 ''username'', PasswordSecret = sel0 ''password'',
           SSL = True, SSLMode = ''require''\<rparr>"

definition my0 :: MySQLConfig where
  "my0 = \<lparr>DatabaseConfig.Host = ''my.example'', Port = 0, DatabaseConfig.Database = ''argo'', TableName = ''wf'',
           UsernameSecret = sel0 ''username'', PasswordSecret = sel0 ''password'',
           MySQLConfig.Options = Some 0, CaCertSecret = sel0 ''ca.crt''\<rparr>"

definition pool0 :: ConnectionPool where
  "pool0 = \<lparr>MaxIdleConns = 3, MaxOpenConns = 5, ConnMaxLifetime = 60\<rparr>"

text \<open>A state with one allocated map, the options \<open>{"charset": "utf8"}\<close> at address 0.\<close>

definition world0 :: world where
  "world0 = \<lparr>gomaps = (\<lambda>a. if a = 0 then [''charset'' \<mapsto> ''utf8''] else Map.empty),
              next_addr = 1, tlsConfigRegistry = Map.empty, calls = []\<rparr>"

text \<open>
  The configuration that selects \<open>my0\<close>; the same with a nil options map; the
  descriptor \<open>Open\<close> receives for \<open>my0\<close> in \<open>world0\<close> (the options with the TLS profile
  added); a client that refuses to connect; and a state that differs from \<open>world0\<close> in
  the call log and in a second map.
\<close>

definition pc0 :: PersistConfig where
  "pc0 = \<lparr>ConnectionPool = Some pool0, PostgreSQL = None, MySQL = Some my0\<rparr>"

definition pc_nil_options :: PersistConfig where
  "pc_nil_options =
     \<lparr>ConnectionPool = Some pool0, PostgreSQL = None,
      MySQL = Some (my0\<lparr>MySQLConfig.Options := None\<rparr>)\<rparr>"

definition url0 :: "gomap ConnectionURL" where
  "url0 = \<lparr>User = ''argo'', Password = ''hunter2'', Host = ''my.example'', Database = ''argo'',
           Options = Some [''charset'' \<mapsto> ''utf8'', ''tls'' \<mapsto> ''argo-ca-cert'']\<rparr>"

definition env_refused :: env where
  "env_refused = env0\<lparr>open_result := (\<lambda>b url reg. Inl (External ''connection refused''))\<rparr>"

text \<open>
  A client that refuses a descriptor whose \<open>tls\<close> option names a profile that is neither
  built in nor registered; the configuration \<open>pc0\<close> without the CA certificate secret;
  and \<open>world0\<close> with the option \<open>tls\<close> in the options map, with and without the profile
  it names in the registry.
\<close>

definition open_tls :: "backend \<Rightarrow> gomap ConnectionURL \<Rightarrow> (string \<rightharpoonup> CertPool) \<Rightarrow> error + Session"
  where
  "open_tls b url reg =
     (case ConnectionURL.Options url of
        None \<Rightarrow> Inr session0
      | Some m \<Rightarrow>
          (case m ''tls'' of
             None \<Rightarrow> Inr session0
           | Some name \<Rightarrow>
               if name \<in> set [''true'', ''false'', ''skip-verify'', ''preferred''] \<or>
                  reg name \<noteq> None
               then Inr session0
               else Inl (External ''invalid value / unknown config name'')))"

definition env_tls :: env where
  "env_tls = env0\<lparr>open_result := open_tls\<rparr>"

definition pc_no_ca :: PersistConfig where
  "pc_no_ca =
     \<lparr>ConnectionPool = Some pool0, PostgreSQL = None,
      MySQL = Some (my0\<lparr>CaCertSecret := SecretKeySelector_zero\<rparr>)\<rparr>"

definition world_tls :: world where
  "world_tls =
     world0\<lparr>gomaps := (gomaps world0)(0 := [''charset'' \<mapsto> ''utf8'', ''tls'' \<mapsto> ''argo-ca-cert''])\<rparr>"

definition world_tls_registered :: world where
  "world_tls_registered = world_tls\<lparr>tlsConfigRegistry := [''argo-ca-cert'' \<mapsto> [''DER'']]\<rparr>"

definition world_used :: world where
  "world_used =
     world0\<lparr>gomaps := (gomaps world0)(1 := [''collation'' \<mapsto> ''utf8mb4_bin'']),
            next_addr := 2,
            calls := [GetSecretsCall ''other'' ''argo-db'' ''username'']\<rparr>"

section \<open>The call log under the state transformers\<close>

lemma calls_log_call [simp]: "calls (log_call c w) = calls w @ [c]"
  by (simp add: log_call_def)

lemma calls_map_store [simp]: "calls (map_store a k v w) = calls w"
  by (simp add: map_store_def)

lemma calls_new_map [simp]: "calls (fst (new_map m w)) = calls w"
  by (simp add: new_map_def)

lemma calls_made_append [simp]: "calls w' = calls w @ cs \<Longrightarrow> calls_made w w' = cs"
  by (simp add: calls_made_def)

text \<open>The equations that run the model, and those of the test doubles.\<close>

lemmas run_defs =
  CreateDBSession_def CreatePostGresDBSession_def CreateMySQLDBSession_def mysql_ca_cert_def
  mysql_open_def GetSecrets_def Open_def Exec_def RegisterTLSConfig_def AppendCertsFromPEM_def
  NewCertPool_def new_map_def map_store_def log_call_def read_url_def ConfigureDBSession_def
  SetMaxOpenConns_def SetMaxIdleConns_def SetConnMaxLifetime_def Let_def
  DatabaseConfig.truncate_def

lemmas double_defs =
  env0_def store0_def session0_def options0_def default_option_def sel0_def pg0_def my0_def
  pool0_def world0_def SecretKeySelector_zero_def

section \<open>Configuration errors\<close>

text \<open>
  C1. With a configuration in which neither the PostgreSQL nor the MySQL backend is
  set, \<open>CreateDBSession\<close> returns the error \<open>no databases are configured\<close> and a nil
  session; it makes no call and leaves the state as it found it.
\<close>

theorem CreateDBSession_no_backend:
  "PostgreSQL pc = None \<Longrightarrow> MySQL pc = None \<Longrightarrow>
     CreateDBSession e ns (Some pc) w =
       (w, Return (None, Some (Errorf ''no databases are configured'')))"
  by (simp add: CreateDBSession_def)

theorem CreateDBSession_no_backend_witness:
  "CreateDBSession env0 ''argo''
     (Some \<lparr>ConnectionPool = Some pool0, PostgreSQL = None, MySQL = None\<rparr>) world0 =
       (world0, Return (None, Some (Errorf ''no databases are configured'')))"
  using CreateDBSession_no_backend
    [of "\<lparr>ConnectionPool = Some pool0, PostgreSQL = None, MySQL = None\<rparr>" env0 "''argo''" world0]
  by simp

text \<open>
  C2. With a MySQL configuration whose table name is empty, \<open>CreateMySQLDBSession\<close>
  returns the error \<open>tableName is empty\<close> and a nil session, and so does
  \<open>CreateDBSession\<close> when it dispatches to the MySQL builder. The state returned is the
  state given: no secret has been looked up.
\<close>

theorem CreateMySQLDBSession_empty_table_name:
  "TableName cfg = [] \<Longrightarrow>
     CreateMySQLDBSession e ns (Some cfg) pool w =
       (w, Return (None, Some (InternalError ''tableName is empty''))) \<and>
     (PostgreSQL pc = None \<and> MySQL pc = Some cfg \<longrightarrow>
        CreateDBSession e ns (Some pc) w =
          (w, Return (None, Some (InternalError ''tableName is empty''))))"
  by (simp add: CreateDBSession_def CreateMySQLDBSession_def)

theorem CreateMySQLDBSession_empty_table_name_witness:
  "CreateMySQLDBSession env0 ''argo'' (Some (my0\<lparr>TableName := []\<rparr>)) (Some pool0) world0 =
       (world0, Return (None, Some (InternalError ''tableName is empty''))) \<and>
   CreateDBSession env0 ''argo''
     (Some \<lparr>ConnectionPool = Some pool0, PostgreSQL = None,
            MySQL = Some (my0\<lparr>TableName := []\<rparr>)\<rparr>) world0 =
       (world0, Return (None, Some (InternalError ''tableName is empty'')))"
  using CreateMySQLDBSession_empty_table_name
    [of "my0\<lparr>TableName := []\<rparr>" env0 "''argo''" "Some pool0" world0
        "\<lparr>ConnectionPool = Some pool0, PostgreSQL = None,
          MySQL = Some (my0\<lparr>TableName := []\<rparr>)\<rparr>"]
  by simp

section \<open>Secret lookups\<close>

text \<open>
  C3. In both builders a failed lookup of the user name or of the password ends the
  call: the result is the nil session with the error the secret store returned. The
  calls made are then the user-name lookup alone when that one failed (the password is
  not looked up), and the two lookups when the password lookup failed; in neither case
  is \<open>Open\<close> among them. For MySQL the table name is taken to be non-empty, so that the
  builder reaches the lookups.
\<close>

theorem builders_secret_lookup_failure:
  "(lookup e ns (UsernameSecret pg) = Inl err \<longrightarrow>
      (case CreatePostGresDBSession e ns (Some pg) pool w of (w', r) \<Rightarrow>
         r = Return (None, Some err) \<and>
         calls_made w w' = [lookup_call ns (UsernameSecret pg)])) \<and>
   (lookup e ns (UsernameSecret pg) = Inr u \<and> lookup e ns (PasswordSecret pg) = Inl err \<longrightarrow>
      (case CreatePostGresDBSession e ns (Some pg) pool w of (w', r) \<Rightarrow>
         r = Return (None, Some err) \<and>
         calls_made w w' =
           [lookup_call ns (UsernameSecret pg), lookup_call ns (PasswordSecret pg)])) \<and>
   (TableName my \<noteq> [] \<and> lookup e ns (UsernameSecret my) = Inl err \<longrightarrow>
      (case CreateMySQLDBSession e ns (Some my) pool w of (w', r) \<Rightarrow>
         r = Return (None, Some err) \<and>
         calls_made w w' = [lookup_call ns (UsernameSecret my)])) \<and>
   (TableName my \<noteq> [] \<and> lookup e ns (UsernameSecret my) = Inr u \<and>
    lookup e ns (PasswordSecret my) = Inl err \<longrightarrow>
      (case CreateMySQLDBSession e ns (Some my) pool w of (w', r) \<Rightarrow>
         r = Return (None, Some err) \<and>
         calls_made w w' =
           [lookup_call ns (UsernameSecret my), lookup_call ns (PasswordSecret my)]))"
  by (simp add: CreatePostGresDBSession_def CreateMySQLDBSession_def GetSecrets_def
        lookup_def lookup_call_def)

theorem builders_secret_lookup_failure_witness:
  "(case CreatePostGresDBSession env0 ''argo''
           (Some (pg0\<lparr>UsernameSecret := sel0 ''missing''\<rparr>)) (Some pool0) world0 of
      (w', r) \<Rightarrow>
        r = Return (None, Some (External ''secret not found'')) \<and>
        calls_made world0 w' = [GetSecretsCall ''argo'' ''argo-db'' ''missing'']) \<and>
   (case CreatePostGresDBSession env0 ''argo''
           (Some (pg0\<lparr>PasswordSecret := sel0 ''missing''\<rparr>)) (Some pool0) world0 of
      (w', r) \<Rightarrow>
        r = Return (None, Some (External ''secret not found'')) \<and>
        calls_made world0 w' =
          [GetSecretsCall ''argo'' ''argo-db'' ''username'',
           GetSecretsCall ''argo'' ''argo-db'' ''missing'']) \<and>
   (case CreateMySQLDBSession env0 ''argo''
           (Some (my0\<lparr>UsernameSecret := sel0 ''missing''\<rparr>)) (Some pool0) world0 of
      (w', r) \<Rightarrow>
        r = Return (None, Some (External ''secret not found'')) \<and>
        calls_made world0 w' = [GetSecretsCall ''argo'' ''argo-db'' ''missing'']) \<and>
   (case CreateMySQLDBSession env0 ''argo''
           (Some (my0\<lparr>PasswordSecret := sel0 ''missing''\<rparr>)) (Some pool0) world0 of
      (w', r) \<Rightarrow>
        r = Return (None, Some (External ''secret not found'')) \<and>
        calls_made world0 w' =
          [GetSecretsCall ''argo'' ''argo-db'' ''username'',
           GetSecretsCall ''argo'' ''argo-db'' ''missing''])"
  using
    builders_secret_lookup_failure
      [where e = env0 and ns = "''argo''" and err = "External ''secret not found''"
         and pg = "pg0\<lparr>UsernameSecret := sel0 ''missing''\<rparr>"
         and my = "my0\<lparr>UsernameSecret := sel0 ''missing''\<rparr>"
         and pool = "Some pool0" and w = world0]
    builders_secret_lookup_failure
      [where e = env0 and ns = "''argo''" and err = "External ''secret not found''"
         and u = "''argo''"
         and pg = "pg0\<lparr>PasswordSecret := sel0 ''missing''\<rparr>"
         and my = "my0\<lparr>PasswordSecret := sel0 ''missing''\<rparr>"
         and pool = "Some pool0" and w = world0]
  by (simp add: lookup_def lookup_call_def env0_def store0_def pg0_def my0_def sel0_def)

section \<open>The CA certificate\<close>

text \<open>
  C4. The MySQL configuration \<open>my0\<close> with the CA certificate secret \<open>argo-db/bad.crt\<close>,
  whose bytes hold no certificate: the table name is not empty and the three lookups
  succeed, \<open>AppendCertsFromPEM\<close> reports failure, and \<open>CreateMySQLDBSession\<close> reaches
  \<open>return nil, "", fmt.Errorf("failed to append PEM")\<close>. That statement is ill-typed, so
  the function does not return the nil session with the error \<open>failed to append PEM\<close>:
  it has no result there. The calls made are the three lookups; nothing is registered
  and no session is opened.
\<close>

theorem CreateMySQLDBSession_bad_pem_no_result:
  "(case CreateMySQLDBSession env0 ''argo''
           (Some (my0\<lparr>CaCertSecret := sel0 ''bad.crt''\<rparr>)) (Some pool0) world0 of
      (w', r) \<Rightarrow>
        r = IllTypedReturn \<and>
        r \<noteq> Return (None, Some (Errorf ''failed to append PEM'')) \<and>
        pem_certs env0 ''garbage'' = [] \<and>
        calls_made world0 w' =
          [GetSecretsCall ''argo'' ''argo-db'' ''username'',
           GetSecretsCall ''argo'' ''argo-db'' ''password'',
           GetSecretsCall ''argo'' ''argo-db'' ''bad.crt''])"
  by (simp add: CreateMySQLDBSession_def mysql_ca_cert_def GetSecrets_def
        AppendCertsFromPEM_def NewCertPool_def env0_def store0_def my0_def sel0_def
        SecretKeySelector_zero_def)

section \<open>The PostgreSQL descriptor\<close>

text \<open>
  C5. With a PostgreSQL configuration that has SSL enabled, once both lookups have
  succeeded the builder makes one \<open>Open\<close> call. If \<open>SSLMode\<close> is \<open>require\<close>, the
  descriptor passed carries the options map \<open>{"sslmode": "require"}\<close>; if \<open>SSLMode\<close> is
  empty, the descriptor carries no options map (nil).
\<close>

theorem CreatePostGresDBSession_sslmode:
  "lookup e ns (UsernameSecret cfg) = Inr u \<Longrightarrow> lookup e ns (PasswordSecret cfg) = Inr p \<Longrightarrow>
   SSL cfg \<Longrightarrow>
   (SSLMode cfg = ''require'' \<longrightarrow>
      calls_made w (fst (CreatePostGresDBSession e ns (Some cfg) pool w)) =
        [lookup_call ns (UsernameSecret cfg), lookup_call ns (PasswordSecret cfg),
         OpenCall postgresql
           \<lparr>User = u, Password = p, Host = hostname e (DatabaseConfig.truncate cfg),
            Database = DatabaseConfig.Database cfg,
            Options = Some [''sslmode'' \<mapsto> ''require'']\<rparr>]) \<and>
   (SSLMode cfg = [] \<longrightarrow>
      calls_made w (fst (CreatePostGresDBSession e ns (Some cfg) pool w)) =
        [lookup_call ns (UsernameSecret cfg), lookup_call ns (PasswordSecret cfg),
         OpenCall postgresql
           \<lparr>User = u, Password = p, Host = hostname e (DatabaseConfig.truncate cfg),
            Database = DatabaseConfig.Database cfg, Options = None\<rparr>])"
  by (simp add: CreatePostGresDBSession_def GetSecrets_def lookup_def lookup_call_def
        Open_def read_url_def new_map_def Let_def split: sum.splits)

theorem CreatePostGresDBSession_sslmode_witness:
  "calls_made world0 (fst (CreatePostGresDBSession env0 ''argo'' (Some pg0) None world0)) =
     [GetSecretsCall ''argo'' ''argo-db'' ''username'',
      GetSecretsCall ''argo'' ''argo-db'' ''password'',
      OpenCall postgresql
        \<lparr>User = ''argo'', Password = ''hunter2'', Host = ''pg.example'', Database = ''argo'',
         Options = Some [''sslmode'' \<mapsto> ''require'']\<rparr>] \<and>
   calls_made world0
     (fst (CreatePostGresDBSession env0 ''argo'' (Some (pg0\<lparr>SSLMode := []\<rparr>)) None world0)) =
     [GetSecretsCall ''argo'' ''argo-db'' ''username'',
      GetSecretsCall ''argo'' ''argo-db'' ''password'',
      OpenCall postgresql
        \<lparr>User = ''argo'', Password = ''hunter2'', Host = ''pg.example'', Database = ''argo'',
         Options = None\<rparr>]"
  using
    CreatePostGresDBSession_sslmode
      [where e = env0 and ns = "''argo''" and cfg = pg0 and u = "''argo''" and p = "''hunter2''"
         and pool = None and w = world0]
    CreatePostGresDBSession_sslmode
      [where e = env0 and ns = "''argo''" and cfg = "pg0\<lparr>SSLMode := []\<rparr>" and u = "''argo''"
         and p = "''hunter2''" and pool = None and w = world0]
  by (simp add: lookup_def lookup_call_def env0_def store0_def pg0_def sel0_def
        DatabaseConfig.truncate_def)

section \<open>Pool configuration\<close>

text \<open>
  C6. \<open>ConfigureDBSession\<close> returns the session as it is when no pool configuration is
  given. Given one, the session returned has the configured maximum of open
  connections, maximum of idle connections and maximum connection lifetime, and is
  otherwise the session given; a configuration with \<open>MaxOpenConns = 5\<close> yields a session
  with that limit. The function has no error result.
\<close>

theorem ConfigureDBSession_sets_pool:
  "ConfigureDBSession s None = s \<and>
   maxOpen (ConfigureDBSession s (Some p)) = MaxOpenConns p \<and>
   maxIdle (ConfigureDBSession s (Some p)) = MaxIdleConns p \<and>
   maxLifetime (ConfigureDBSession s (Some p)) = ConnMaxLifetime p \<and>
   handle (ConfigureDBSession s (Some p)) = handle s \<and>
   maxOpen (ConfigureDBSession s (Some (p\<lparr>MaxOpenConns := 5\<rparr>))) = 5"
  by (simp add: ConfigureDBSession_def SetMaxOpenConns_def SetMaxIdleConns_def
        SetConnMaxLifetime_def)

section \<open>Runs of the builders\<close>

lemma succeeded_append [simp]:
  "succeeded e reg (cs @ cs') = (succeeded e reg cs \<and> succeeded e reg cs')"
  by (simp add: succeeded_def)

lemma succeeded_butlast: "succeeded e reg cs \<Longrightarrow> succeeded e reg (butlast cs)"
  by (auto simp add: succeeded_def list_all_iff dest: in_set_butlastD)

lemma no_call_after_failure_append:
  "succeeded e reg cs \<Longrightarrow> no_call_after_failure e reg cs' \<Longrightarrow>
     no_call_after_failure e reg (cs @ cs')"
  by (cases "cs' = []") (simp_all add: no_call_after_failure_def butlast_append succeeded_butlast)

lemma failure_ends_call_append:
  "succeeded e reg cs \<Longrightarrow> failure_ends_call e reg cs' r \<Longrightarrow>
     failure_ends_call e reg (cs @ cs') r"
  by (auto simp add: failure_ends_call_def succeeded_def list_all_iff)

lemma mysql_ca_cert_calls:
  "\<exists>cs. calls (fst (mysql_ca_cert e ns cfg opts w)) = calls w @ cs \<and> filter is_db_call cs = [] \<and>
     (case snd (mysql_ca_cert e ns cfg opts w) of
        None \<Rightarrow> succeeded e reg cs
      | Some r \<Rightarrow> r = IllTypedReturn \<and> CaCertSecret cfg \<noteq> SecretKeySelector_zero \<and>
                  no_call_after_failure e reg cs)"
  by (auto simp add: mysql_ca_cert_def GetSecrets_def RegisterTLSConfig_def AppendCertsFromPEM_def
      NewCertPool_def Let_def no_call_after_failure_def succeeded_def
      split: sum.splits option.splits)

lemma Open_registry [simp]: "tlsConfigRegistry (fst (Open e b settings w)) = tlsConfigRegistry w"
  by (simp add: Open_def log_call_def Let_def split: option.splits)

lemma mysql_open_registry:
  "tlsConfigRegistry (fst (mysql_open e settings pool w)) = tlsConfigRegistry w"
  by (simp add: mysql_open_def Open_def Exec_def log_call_def Let_def
      split: sum.splits option.splits)

lemma mysql_open_clean:
  "no_call_after_failure e (tlsConfigRegistry w) (calls_made w (fst (mysql_open e settings pool w))) \<and>
   failure_ends_call e (tlsConfigRegistry w) (calls_made w (fst (mysql_open e settings pool w)))
     (snd (mysql_open e settings pool w)) \<and>
   snd (mysql_open e settings pool w) \<noteq> IllTypedReturn \<and>
   (snd (mysql_open e settings pool w) = Return (s, Some err) \<longrightarrow> s = None)"
  by (auto simp add: mysql_open_def Open_def Exec_def Let_def no_call_after_failure_def
      failure_ends_call_def succeeded_def split: sum.splits option.splits)

lemma CreatePostGresDBSession_registry:
  "tlsConfigRegistry (fst (CreatePostGresDBSession e ns cfgp pool w)) = tlsConfigRegistry w"
  by (simp add: CreatePostGresDBSession_def GetSecrets_def Open_def new_map_def log_call_def
      Let_def split: sum.splits option.splits)

lemma CreatePostGresDBSession_clean:
  "no_call_after_failure e (tlsConfigRegistry w)
     (calls_made w (fst (CreatePostGresDBSession e ns cfgp pool w))) \<and>
   failure_ends_call e (tlsConfigRegistry w)
     (calls_made w (fst (CreatePostGresDBSession e ns cfgp pool w)))
     (snd (CreatePostGresDBSession e ns cfgp pool w)) \<and>
   snd (CreatePostGresDBSession e ns cfgp pool w) \<noteq> IllTypedReturn \<and>
   (snd (CreatePostGresDBSession e ns cfgp pool w) = Return (s, Some err) \<longrightarrow> s = None)"
  by (auto simp add: CreatePostGresDBSession_def GetSecrets_def Open_def new_map_def Let_def
      no_call_after_failure_def failure_ends_call_def succeeded_def calls_made_def log_call_def
      read_url_def split: sum.splits option.splits)

lemma CreateMySQLDBSession_cases:
  "(\<exists>r cs. snd (CreateMySQLDBSession e ns (Some cfg) pool w) = r \<and>
       (\<forall>s err. r = Return (s, Some err) \<longrightarrow> s = None) \<and>
       (r = IllTypedReturn \<longrightarrow> CaCertSecret cfg \<noteq> SecretKeySelector_zero) \<and>
       calls (fst (CreateMySQLDBSession e ns (Some cfg) pool w)) = calls w @ cs \<and>
       filter is_db_call cs = [] \<and> no_call_after_failure e reg cs \<and>
       failure_ends_call e reg cs r) \<or>
   (\<exists>settings w4 cs. CreateMySQLDBSession e ns (Some cfg) pool w = mysql_open e settings pool w4 \<and>
       calls w4 = calls w @ cs \<and> filter is_db_call cs = [] \<and> succeeded e reg cs)"
proof (cases "TableName cfg = []")
  case True
  then show ?thesis
    by (simp add: CreateMySQLDBSession_def no_call_after_failure_def failure_ends_call_def
        succeeded_def)
next
  case tn: False
  let ?un = "GetSecretsCall ns (Name (UsernameSecret cfg)) (Key (UsernameSecret cfg))"
  let ?pw = "GetSecretsCall ns (Name (PasswordSecret cfg)) (Key (PasswordSecret cfg))"
  show ?thesis
  proof (cases "secret_store e ns (Name (UsernameSecret cfg)) (Key (UsernameSecret cfg))")
    case (Inl err)
    with tn show ?thesis
      by (simp add: CreateMySQLDBSession_def GetSecrets_def no_call_after_failure_def
          failure_ends_call_def succeeded_def)
  next
    case un: (Inr u)
    show ?thesis
    proof (cases "secret_store e ns (Name (PasswordSecret cfg)) (Key (PasswordSecret cfg))")
      case (Inl err)
      with tn un show ?thesis
        by (simp add: CreateMySQLDBSession_def GetSecrets_def no_call_after_failure_def
            failure_ends_call_def succeeded_def)
    next
      case pw: (Inr p)
      define w2 where "w2 = log_call ?pw (log_call ?un w)"
      define w3 where
        "w3 = (case MySQLConfig.Options cfg of Some a \<Rightarrow> w2 | None \<Rightarrow> fst (new_map Map.empty w2))"
      define opts where
        "opts = (case MySQLConfig.Options cfg of Some a \<Rightarrow> a | None \<Rightarrow> snd (new_map Map.empty w2))"
      define settings :: "addr ConnectionURL" where
        "settings = \<lparr>User = u, Password = p, Host = hostname e (DatabaseConfig.truncate cfg),
                      Database = DatabaseConfig.Database cfg, Options = Some opts\<rparr>"
      let ?ca = "mysql_ca_cert e ns cfg opts w3"
      have c3: "calls w3 = calls w @ [?un, ?pw]"
        by (simp add: w3_def w2_def split: option.splits)
      have run: "CreateMySQLDBSession e ns (Some cfg) pool w =
        (case ?ca of
           (w4, Some r) \<Rightarrow> (w4, r)
         | (w4, None) \<Rightarrow> mysql_open e settings pool w4)"
        using tn un pw
        by (simp add: CreateMySQLDBSession_def GetSecrets_def w2_def w3_def opts_def settings_def
            split: option.splits prod.splits)
      obtain cs where cs: "calls (fst ?ca) = calls w3 @ cs" "filter is_db_call cs = []"
        "(case snd ?ca of
            None \<Rightarrow> succeeded e reg cs
          | Some r \<Rightarrow> r = IllTypedReturn \<and> CaCertSecret cfg \<noteq> SecretKeySelector_zero \<and>
                      no_call_after_failure e reg cs)"
        using mysql_ca_cert_calls [of e ns cfg opts w3 reg] by blast
      have ok2: "succeeded e reg [?un, ?pw]"
        using un pw by (simp add: succeeded_def)
      have c4: "calls (fst ?ca) = calls w @ (?un # ?pw # cs)"
        using cs(1) c3 by simp
      have nodb: "filter is_db_call (?un # ?pw # cs) = []"
        using cs(2) by simp
      show ?thesis
      proof (cases "snd ?ca")
        case None
        then have r: "CreateMySQLDBSession e ns (Some cfg) pool w =
            mysql_open e settings pool (fst ?ca)"
          using run by (simp split: prod.splits)
        have "succeeded e reg (?un # ?pw # cs)"
          using cs(3) None ok2 by (simp add: succeeded_def)
        with r c4 nodb show ?thesis
          by (intro disjI2 exI [of _ settings] exI [of _ "fst ?ca"] exI [of _ "?un # ?pw # cs"]
              conjI)
      next
        case (Some r0)
        then have r: "snd (CreateMySQLDBSession e ns (Some cfg) pool w) = IllTypedReturn"
          and f: "fst (CreateMySQLDBSession e ns (Some cfg) pool w) = fst ?ca"
          and ca: "CaCertSecret cfg \<noteq> SecretKeySelector_zero"
          using run cs(3) by (simp_all split: prod.splits)
        have n: "no_call_after_failure e reg (?un # ?pw # cs)"
          using no_call_after_failure_append [of e reg "[?un, ?pw]" cs] cs(3) Some ok2 by simp
        have g: "failure_ends_call e reg (?un # ?pw # cs) IllTypedReturn"
          by (simp add: failure_ends_call_def list_all_iff)
        have k: "\<forall>s err. (IllTypedReturn :: (Session option \<times> error option) go) =
            Return (s, Some err) \<longrightarrow> s = None"
          by simp
        have k': "(IllTypedReturn :: (Session option \<times> error option) go) = IllTypedReturn \<longrightarrow>
            CaCertSecret cfg \<noteq> SecretKeySelector_zero"
          using ca by simp
        from r k k' c4 nodb n g show ?thesis
          unfolding f
          by (intro disjI1 exI [of _ IllTypedReturn] exI [of _ "?un # ?pw # cs"] conjI)
      qed
    qed
  qed
qed

lemma calls_grow: "calls w' = calls w @ cs \<Longrightarrow> calls w' = calls w @ calls_made w w'"
  by (simp add: calls_made_def)

lemma mysql_open_grow:
  "calls (fst (mysql_open e settings pool w)) =
     calls w @ calls_made w (fst (mysql_open e settings pool w))"
proof -
  have "\<exists>cs. calls (fst (mysql_open e settings pool w)) = calls w @ cs"
    by (simp add: mysql_open_def Open_def Exec_def Let_def log_call_def
        split: sum.splits option.splits)
  then show ?thesis using calls_grow by blast
qed

lemma CreateMySQLDBSession_clean:
  "no_call_after_failure e (tlsConfigRegistry (fst (CreateMySQLDBSession e ns cfgp pool w)))
     (calls_made w (fst (CreateMySQLDBSession e ns cfgp pool w))) \<and>
   failure_ends_call e (tlsConfigRegistry (fst (CreateMySQLDBSession e ns cfgp pool w)))
     (calls_made w (fst (CreateMySQLDBSession e ns cfgp pool w)))
     (snd (CreateMySQLDBSession e ns cfgp pool w)) \<and>
   (snd (CreateMySQLDBSession e ns cfgp pool w) = Return (s, Some err) \<longrightarrow> s = None)"
proof (cases cfgp)
  case None
  then show ?thesis
    by (simp add: CreateMySQLDBSession_def calls_made_def no_call_after_failure_def
        failure_ends_call_def succeeded_def)
next
  case (Some cfg)
  let ?run = "CreateMySQLDBSession e ns (Some cfg) pool w"
  let ?reg = "tlsConfigRegistry (fst ?run)"
  from CreateMySQLDBSession_cases [of e ns cfg pool w ?reg]
  have "no_call_after_failure e ?reg (calls_made w (fst ?run)) \<and>
        failure_ends_call e ?reg (calls_made w (fst ?run)) (snd ?run) \<and>
        (snd ?run = Return (s, Some err) \<longrightarrow> s = None)"
  proof (elim disjE exE conjE)
    fix r cs
    assume a: "snd ?run = r"
      "\<forall>s err. r = Return (s, Some err) \<longrightarrow> s = None"
      "calls (fst ?run) = calls w @ cs"
      "no_call_after_failure e ?reg cs" "failure_ends_call e ?reg cs r"
    have "calls_made w (fst ?run) = cs"
      using a(3) by (rule calls_made_append)
    moreover have "snd ?run = Return (s, Some err) \<longrightarrow> s = None"
      using a(1,2) by auto
    ultimately show ?thesis using a(4,5) a(1) by simp
  next
    fix settings w4 cs
    assume run: "?run = mysql_open e settings pool w4"
      and cs: "calls w4 = calls w @ cs" "succeeded e ?reg cs"
    let ?m = "mysql_open e settings pool w4"
    have reg: "?reg = tlsConfigRegistry w4"
      unfolding run by (rule mysql_open_registry)
    have "calls (fst ?m) = calls w @ (cs @ calls_made w4 (fst ?m))"
      using mysql_open_grow [of e settings pool w4] unfolding cs(1) append_assoc .
    then have made: "calls_made w (fst ?m) = cs @ calls_made w4 (fst ?m)"
      by (rule calls_made_append)
    have cs': "succeeded e (tlsConfigRegistry w4) cs"
      using cs(2) unfolding reg .
    have n: "no_call_after_failure e (tlsConfigRegistry w4) (cs @ calls_made w4 (fst ?m))"
      using mysql_open_clean [of e w4 settings pool s err] cs'
      by (intro no_call_after_failure_append) (simp_all only: simp_thms)
    have f: "failure_ends_call e (tlsConfigRegistry w4) (cs @ calls_made w4 (fst ?m)) (snd ?m)"
      using mysql_open_clean [of e w4 settings pool s err] cs'
      by (intro failure_ends_call_append) (simp_all only: simp_thms)
    have "no_call_after_failure e (tlsConfigRegistry w4) (calls_made w (fst ?m)) \<and>
        failure_ends_call e (tlsConfigRegistry w4) (calls_made w (fst ?m)) (snd ?m) \<and>
        (snd ?m = Return (s, Some err) \<longrightarrow> s = None)"
      unfolding made
      using n f mysql_open_clean [of e w4 settings pool s err] by blast
    then show ?thesis
      unfolding reg unfolding run .
  qed
  then show ?thesis unfolding Some .
qed

lemma CreateMySQLDBSession_ill_typed:
  "snd (CreateMySQLDBSession e ns (Some cfg) pool w) = IllTypedReturn \<Longrightarrow>
     CaCertSecret cfg \<noteq> SecretKeySelector_zero"
  using CreateMySQLDBSession_cases [of e ns cfg pool w "Map.empty"]
    mysql_open_clean
  by (elim disjE exE conjE) auto

lemma CreateDBSession_clean:
  "no_call_after_failure e (tlsConfigRegistry (fst (CreateDBSession e ns pc w)))
     (calls_made w (fst (CreateDBSession e ns pc w))) \<and>
   failure_ends_call e (tlsConfigRegistry (fst (CreateDBSession e ns pc w)))
     (calls_made w (fst (CreateDBSession e ns pc w)))
     (snd (CreateDBSession e ns pc w)) \<and>
   (snd (CreateDBSession e ns pc w) = Return (s, Some err) \<longrightarrow> s = None)"
proof (cases pc)
  case None
  then show ?thesis
    by (simp add: CreateDBSession_def calls_made_def no_call_after_failure_def
        failure_ends_call_def succeeded_def)
next
  case (Some x)
  show ?thesis
  proof (cases "PostgreSQL x")
    case pg: (Some pg)
    have "CreateDBSession e ns pc w = CreatePostGresDBSession e ns (Some pg) (ConnectionPool x) w"
      by (simp add: CreateDBSession_def Some pg)
    then show ?thesis
      using CreatePostGresDBSession_clean [of e w ns "Some pg" "ConnectionPool x" s err]
        CreatePostGresDBSession_registry [of e ns "Some pg" "ConnectionPool x" w]
      by metis
  next
    case nopg: None
    show ?thesis
    proof (cases "MySQL x")
      case my: (Some my)
      have "CreateDBSession e ns pc w = CreateMySQLDBSession e ns (Some my) (ConnectionPool x) w"
        by (simp add: CreateDBSession_def Some nopg my)
      then show ?thesis
        using CreateMySQLDBSession_clean [of e ns "Some my" "ConnectionPool x" w s err]
        by metis
    next
      case None
      then show ?thesis
        by (simp add: CreateDBSession_def Some nopg calls_made_def no_call_after_failure_def
            failure_ends_call_def succeeded_def)
    qed
  qed
qed

section \<open>The MySQL session after \<open>Open\<close>\<close>

lemma mysql_open_calls:
  "calls (fst (mysql_open e settings pool w)) = calls w @
     (case open_result e mysql (read_url w settings) (tlsConfigRegistry w) of
        Inl err \<Rightarrow> [OpenCall mysql (read_url w settings)]
      | Inr s0 \<Rightarrow>
         (case exec_error e (ConfigureDBSession s0 pool) (''SET NAMES 'utf8mb4'' @ [CHR 0x27]) of
            Some err \<Rightarrow>
              [OpenCall mysql (read_url w settings),
               ExecCall (ConfigureDBSession s0 pool) (''SET NAMES 'utf8mb4'' @ [CHR 0x27])]
          | None \<Rightarrow>
              [OpenCall mysql (read_url w settings),
               ExecCall (ConfigureDBSession s0 pool) (''SET NAMES 'utf8mb4'' @ [CHR 0x27]),
               ExecCall (ConfigureDBSession s0 pool) ''SET CHARACTER SET utf8mb4'']))"
  by (simp add: mysql_open_def Open_def Exec_def Let_def log_call_def
      split: sum.splits option.splits)

lemma mysql_open_result:
  "snd (mysql_open e settings pool w) =
     (case open_result e mysql (read_url w settings) (tlsConfigRegistry w) of
        Inl err \<Rightarrow> Return (None, Some err)
      | Inr s0 \<Rightarrow>
         (case exec_error e (ConfigureDBSession s0 pool) (''SET NAMES 'utf8mb4'' @ [CHR 0x27]) of
            Some err \<Rightarrow> Return (None, Some err)
          | None \<Rightarrow>
         (case exec_error e (ConfigureDBSession s0 pool) ''SET CHARACTER SET utf8mb4'' of
            Some err \<Rightarrow> Return (None, Some err)
          | None \<Rightarrow> Return (Some (ConfigureDBSession s0 pool), None))))"
  by (simp add: mysql_open_def Open_def Exec_def Let_def split: sum.splits option.splits)

text \<open>
  C7. Suppose a call of \<open>CreateMySQLDBSession\<close> opens a session: \<open>Open\<close> is called with a
  descriptor \<open>url\<close> and, with the TLS profiles registered by then, returns the session
  \<open>s0\<close>. Let \<open>s\<close> be \<open>s0\<close> after pool configuration. Then the calls made to the database
  client are, in this order, the \<open>Open\<close>, the statement \<open>SET NAMES 'utf8mb4'\<close> on \<open>s\<close> and,
  unless that statement failed, the statement \<open>SET CHARACTER SET utf8mb4\<close> on \<open>s\<close>, and no
  others. If the first statement fails, or the first succeeds and the second fails, the
  result is the nil session with the error of the failed statement; if both succeed,
  the result is \<open>s\<close> with a nil error.
\<close>

theorem CreateMySQLDBSession_charset_statements:
  assumes opened:
      "OpenCall mysql url \<in> set (calls_made w (fst (CreateMySQLDBSession e ns (Some cfg) pool w)))"
    and ok: "open_result e mysql url
               (tlsConfigRegistry (fst (CreateMySQLDBSession e ns (Some cfg) pool w))) = Inr s0"
  shows
    "(let s = ConfigureDBSession s0 pool;
          cs = filter is_db_call
                 (calls_made w (fst (CreateMySQLDBSession e ns (Some cfg) pool w)));
          r = snd (CreateMySQLDBSession e ns (Some cfg) pool w)
      in case exec_error e s (''SET NAMES 'utf8mb4'' @ [CHR 0x27]) of
           Some err \<Rightarrow>
             r = Return (None, Some err) \<and>
             cs = [OpenCall mysql url, ExecCall s (''SET NAMES 'utf8mb4'' @ [CHR 0x27])]
         | None \<Rightarrow>
             cs = [OpenCall mysql url, ExecCall s (''SET NAMES 'utf8mb4'' @ [CHR 0x27]),
                   ExecCall s ''SET CHARACTER SET utf8mb4''] \<and>
             (case exec_error e s ''SET CHARACTER SET utf8mb4'' of
                Some err \<Rightarrow> r = Return (None, Some err)
              | None \<Rightarrow> r = Return (Some s, None)))"
proof -
  let ?run = "CreateMySQLDBSession e ns (Some cfg) pool w"
  have nodb: "c \<notin> set cs" if "filter is_db_call cs = []" "is_db_call c" for c cs
    using that by (metis filter_empty_conv)
  from CreateMySQLDBSession_cases [of e ns cfg pool w Map.empty]
  show ?thesis
  proof (elim disjE exE conjE)
    fix r cs
    assume "calls (fst ?run) = calls w @ cs" "filter is_db_call cs = []"
    then have "calls_made w (fst ?run) = cs" "OpenCall mysql url \<notin> set cs"
      using nodb [of cs "OpenCall mysql url"] by simp_all
    with opened show ?thesis by simp
  next
    fix settings w4 cs
    assume run: "?run = mysql_open e settings pool w4"
      and cs: "calls w4 = calls w @ cs" "filter is_db_call cs = []"
    let ?u = "read_url w4 settings"
    have notin: "OpenCall mysql url \<notin> set cs"
      using nodb [of cs "OpenCall mysql url"] cs(2) by simp
    have reg: "tlsConfigRegistry (fst ?run) = tlsConfigRegistry w4"
      unfolding run by (rule mysql_open_registry)
    have made: "calls_made w (fst ?run) = cs @
       (case open_result e mysql ?u (tlsConfigRegistry w4) of
          Inl err \<Rightarrow> [OpenCall mysql ?u]
        | Inr s0 \<Rightarrow>
           (case exec_error e (ConfigureDBSession s0 pool) (''SET NAMES 'utf8mb4'' @ [CHR 0x27]) of
              Some err \<Rightarrow>
                [OpenCall mysql ?u,
                 ExecCall (ConfigureDBSession s0 pool) (''SET NAMES 'utf8mb4'' @ [CHR 0x27])]
            | None \<Rightarrow>
                [OpenCall mysql ?u,
                 ExecCall (ConfigureDBSession s0 pool) (''SET NAMES 'utf8mb4'' @ [CHR 0x27]),
                 ExecCall (ConfigureDBSession s0 pool) ''SET CHARACTER SET utf8mb4'']))"
      using run cs(1) mysql_open_calls [of e settings pool w4] by simp
    have url: "url = ?u"
      using opened notin unfolding made
      by (auto split: sum.splits option.splits)
    have ok': "open_result e mysql ?u (tlsConfigRegistry w4) = Inr s0"
      using ok unfolding reg url .
    show ?thesis
      using made cs(2) ok' url run mysql_open_result [of e settings pool w4]
      by (simp add: Let_def split: option.splits)
  qed
qed

theorem CreateMySQLDBSession_charset_statements_witness:
  "OpenCall mysql url0 \<in>
     set (calls_made world0
            (fst (CreateMySQLDBSession env0 ''argo'' (Some my0) (Some pool0) world0))) \<and>
   open_result env0 mysql url0
     (tlsConfigRegistry (fst (CreateMySQLDBSession env0 ''argo'' (Some my0) (Some pool0) world0))) =
     Inr session0 \<and>
   filter is_db_call
     (calls_made world0
        (fst (CreateMySQLDBSession env0 ''argo'' (Some my0) (Some pool0) world0))) =
     [OpenCall mysql url0,
      ExecCall \<lparr>handle = 1, maxOpen = 5, maxIdle = 3, maxLifetime = 60\<rparr>
        (''SET NAMES 'utf8mb4'' @ [CHR 0x27]),
      ExecCall \<lparr>handle = 1, maxOpen = 5, maxIdle = 3, maxLifetime = 60\<rparr>
        ''SET CHARACTER SET utf8mb4''] \<and>
   snd (CreateMySQLDBSession env0 ''argo'' (Some my0) (Some pool0) world0) =
     Return (Some \<lparr>handle = 1, maxOpen = 5, maxIdle = 3, maxLifetime = 60\<rparr>, None)"
proof -
  have opened: "OpenCall mysql url0 \<in>
     set (calls_made world0
            (fst (CreateMySQLDBSession env0 ''argo'' (Some my0) (Some pool0) world0)))"
    by (simp add: run_defs double_defs url0_def calls_made_def)
  have ok: "open_result env0 mysql url0
     (tlsConfigRegistry (fst (CreateMySQLDBSession env0 ''argo'' (Some my0) (Some pool0) world0))) =
     Inr session0"
    by (simp add: env0_def)
  show ?thesis
    using CreateMySQLDBSession_charset_statements [OF opened ok] opened ok
    by (simp add: Let_def env0_def ConfigureDBSession_def SetMaxOpenConns_def
          SetMaxIdleConns_def SetConnMaxLifetime_def pool0_def session0_def)
qed

section \<open>Failure ends the call\<close>



section \<open>Two runs of a builder\<close>

lemma mysql_open_same:
  assumes "read_url w s = read_url v s'" and "tlsConfigRegistry w = tlsConfigRegistry v"
  shows "snd (mysql_open e s pool w) = snd (mysql_open e s' pool v) \<and>
         calls_made w (fst (mysql_open e s pool w)) = calls_made v (fst (mysql_open e s' pool v))"
proof -
  have "calls_made w (fst (mysql_open e s pool w)) = calls_made v (fst (mysql_open e s' pool v))"
    using calls_made_append [OF mysql_open_calls [of e s pool w]]
      calls_made_append [OF mysql_open_calls [of e s' pool v]] assms
    by (simp only:)
  then show ?thesis
    using assms by (simp only: mysql_open_result simp_thms)
qed

lemma mysql_open_frame:
  "(ConnectionURL.Options s \<noteq> Some a \<longrightarrow> gomaps (fst (mysql_open e s pool w)) a = gomaps w a) \<and>
   tlsConfigRegistry (fst (mysql_open e s pool w)) = tlsConfigRegistry w \<and>
   next_addr (fst (mysql_open e s pool w)) = next_addr w"
  by (simp add: mysql_open_def Open_def Exec_def log_call_def Let_def
        split: sum.splits option.splits)

lemma mysql_ca_cert_same:
  "snd (mysql_ca_cert e ns cfg opts w) = snd (mysql_ca_cert e ns cfg opts' v) \<and>
   calls_made w (fst (mysql_ca_cert e ns cfg opts w)) =
     calls_made v (fst (mysql_ca_cert e ns cfg opts' v))"
  by (simp add: mysql_ca_cert_def GetSecrets_def RegisterTLSConfig_def AppendCertsFromPEM_def
        NewCertPool_def Let_def split: sum.splits option.splits)

lemma mysql_ca_cert_grow:
  "calls (fst (mysql_ca_cert e ns cfg opts w)) =
     calls w @ calls_made w (fst (mysql_ca_cert e ns cfg opts w))"
proof -
  have "\<exists>cs. calls (fst (mysql_ca_cert e ns cfg opts w)) = calls w @ cs"
    by (simp add: mysql_ca_cert_def GetSecrets_def RegisterTLSConfig_def AppendCertsFromPEM_def
        NewCertPool_def Let_def split: sum.splits option.splits)
  then show ?thesis using calls_grow by blast
qed

lemma mysql_ca_cert_gomaps:
  "gomaps (fst (mysql_ca_cert e ns cfg opts w)) =
     (if CaCertSecret cfg \<noteq> SecretKeySelector_zero \<and> snd (mysql_ca_cert e ns cfg opts w) = None
      then (gomaps w)(opts := (gomaps w opts)(''tls'' \<mapsto> ''argo-ca-cert''))
      else gomaps w) \<and>
   next_addr (fst (mysql_ca_cert e ns cfg opts w)) = next_addr w"
  by (simp add: mysql_ca_cert_def GetSecrets_def RegisterTLSConfig_def AppendCertsFromPEM_def
        NewCertPool_def log_call_def map_store_def Let_def split: sum.splits option.splits)

lemma mysql_ca_cert_registry:
  "(k \<noteq> ''argo-ca-cert'' \<longrightarrow>
      tlsConfigRegistry (fst (mysql_ca_cert e ns cfg opts w)) k = tlsConfigRegistry w k) \<and>
   (CaCertSecret cfg = SecretKeySelector_zero \<longrightarrow>
      tlsConfigRegistry (fst (mysql_ca_cert e ns cfg opts w)) = tlsConfigRegistry w)"
  by (simp add: mysql_ca_cert_def GetSecrets_def RegisterTLSConfig_def AppendCertsFromPEM_def
        NewCertPool_def log_call_def map_store_def Let_def split: sum.splits option.splits)

lemma fun_upd_same_off:
  assumes "f(k := None) = g(k := None)"
  shows "f(k \<mapsto> p) = g(k \<mapsto> p)"
proof -
  have "f(k \<mapsto> p) = (f(k := None))(k \<mapsto> p)" by simp
  also have "\<dots> = (g(k := None))(k \<mapsto> p)" by (simp only: assms)
  also have "\<dots> = g(k \<mapsto> p)" by simp
  finally show ?thesis .
qed

lemma mysql_ca_cert_registered:
  assumes "CaCertSecret cfg \<noteq> SecretKeySelector_zero"
  shows "\<exists>p. \<forall>opts w. snd (mysql_ca_cert e ns cfg opts w) = None \<longrightarrow>
           tlsConfigRegistry (fst (mysql_ca_cert e ns cfg opts w)) =
             (tlsConfigRegistry w)(''argo-ca-cert'' \<mapsto> p)"
proof (cases "secret_store e ns (Name (CaCertSecret cfg)) (Key (CaCertSecret cfg))")
  case (Inl err)
  then show ?thesis
    using assms by (simp add: mysql_ca_cert_def GetSecrets_def)
next
  case (Inr ca)
  show ?thesis
    apply (rule exI [of _ "pem_certs e ca"])
    using assms Inr
    by (simp add: mysql_ca_cert_def GetSecrets_def RegisterTLSConfig_def AppendCertsFromPEM_def
        NewCertPool_def log_call_def map_store_def Let_def split: option.splits)
qed

lemma mysql_ca_cert_registry_same:
  assumes none: "snd (mysql_ca_cert e ns cfg ow w) = None"
    and reg: "if CaCertSecret cfg \<noteq> SecretKeySelector_zero
         then (tlsConfigRegistry v)(''argo-ca-cert'' := None) =
              (tlsConfigRegistry w)(''argo-ca-cert'' := None)
         else tlsConfigRegistry v = tlsConfigRegistry w"
  shows "tlsConfigRegistry (fst (mysql_ca_cert e ns cfg ov v)) =
         tlsConfigRegistry (fst (mysql_ca_cert e ns cfg ow w))"
proof (cases "CaCertSecret cfg = SecretKeySelector_zero")
  case True
  then show ?thesis using reg by (simp add: mysql_ca_cert_def)
next
  case False
  from mysql_ca_cert_registered [OF False, of e ns]
  obtain p where p: "\<And>opts w. snd (mysql_ca_cert e ns cfg opts w) = None \<Longrightarrow>
      tlsConfigRegistry (fst (mysql_ca_cert e ns cfg opts w)) =
        (tlsConfigRegistry w)(''argo-ca-cert'' \<mapsto> p)"
    by blast
  have none': "snd (mysql_ca_cert e ns cfg ov v) = None"
    using mysql_ca_cert_same [of e ns cfg ov v ow w] none by simp
  have "(tlsConfigRegistry v)(''argo-ca-cert'' := None) =
        (tlsConfigRegistry w)(''argo-ca-cert'' := None)"
    using reg False by simp
  then have "(tlsConfigRegistry v)(''argo-ca-cert'' \<mapsto> p) =
        (tlsConfigRegistry w)(''argo-ca-cert'' \<mapsto> p)"
    by (rule fun_upd_same_off)
  then show ?thesis
    unfolding p [OF none] p [OF none'] .
qed

lemma CreateMySQLDBSession_unfold:
  assumes tn: "TableName cfg \<noteq> []"
    and un: "secret_store e ns (Name (UsernameSecret cfg)) (Key (UsernameSecret cfg)) = Inr u"
    and pw: "secret_store e ns (Name (PasswordSecret cfg)) (Key (PasswordSecret cfg)) = Inr p"
  shows "\<exists>w3 opts.
     calls w3 = calls w @
       [GetSecretsCall ns (Name (UsernameSecret cfg)) (Key (UsernameSecret cfg)),
        GetSecretsCall ns (Name (PasswordSecret cfg)) (Key (PasswordSecret cfg))] \<and>
     gomaps w3 opts = (case MySQLConfig.Options cfg of Some a \<Rightarrow> gomaps w a | None \<Rightarrow> Map.empty) \<and>
     (case MySQLConfig.Options cfg of Some a \<Rightarrow> opts = a | None \<Rightarrow> opts = next_addr w) \<and>
     (\<forall>a. a \<noteq> next_addr w \<longrightarrow> gomaps w3 a = gomaps w a) \<and>
     (MySQLConfig.Options cfg \<noteq> None \<longrightarrow> gomaps w3 = gomaps w) \<and>
     tlsConfigRegistry w3 = tlsConfigRegistry w \<and>
     CreateMySQLDBSession e ns (Some cfg) pool w =
       (case mysql_ca_cert e ns cfg opts w3 of
          (w4, Some r) \<Rightarrow> (w4, r)
        | (w4, None) \<Rightarrow>
            mysql_open e
              \<lparr>User = u, Password = p, Host = hostname e (DatabaseConfig.truncate cfg),
               Database = DatabaseConfig.Database cfg, Options = Some opts\<rparr> pool w4)"
proof (cases "MySQLConfig.Options cfg")
  case None
  let ?w2 = "log_call (GetSecretsCall ns (Name (PasswordSecret cfg)) (Key (PasswordSecret cfg)))
              (log_call (GetSecretsCall ns (Name (UsernameSecret cfg)) (Key (UsernameSecret cfg))) w)"
  show ?thesis
    apply (rule exI [of _ "fst (new_map Map.empty ?w2)"])
    apply (rule exI [of _ "next_addr w"])
    using tn un pw None
    by (simp add: CreateMySQLDBSession_def GetSecrets_def new_map_def log_call_def)
next
  case (Some a)
  let ?w2 = "log_call (GetSecretsCall ns (Name (PasswordSecret cfg)) (Key (PasswordSecret cfg)))
              (log_call (GetSecretsCall ns (Name (UsernameSecret cfg)) (Key (UsernameSecret cfg))) w)"
  show ?thesis
    apply (rule exI [of _ ?w2])
    apply (rule exI [of _ a])
    using tn un pw Some
    by (simp add: CreateMySQLDBSession_def GetSecrets_def log_call_def)
qed

lemma CreateMySQLDBSession_same:
  assumes agree: "\<And>a. MySQLConfig.Options cfg = Some a \<Longrightarrow> gomaps v a = gomaps w a"
    and reg: "if CaCertSecret cfg \<noteq> SecretKeySelector_zero
              then (tlsConfigRegistry v)(''argo-ca-cert'' := None) =
                   (tlsConfigRegistry w)(''argo-ca-cert'' := None)
              else tlsConfigRegistry v = tlsConfigRegistry w"
  shows "snd (CreateMySQLDBSession e ns (Some cfg) pool v) =
           snd (CreateMySQLDBSession e ns (Some cfg) pool w) \<and>
         calls_made v (fst (CreateMySQLDBSession e ns (Some cfg) pool v)) =
           calls_made w (fst (CreateMySQLDBSession e ns (Some cfg) pool w))"
proof (cases "TableName cfg = []")
  case True
  then show ?thesis by (simp add: CreateMySQLDBSession_def calls_made_def)
next
  case tn: False
  let ?un = "GetSecretsCall ns (Name (UsernameSecret cfg)) (Key (UsernameSecret cfg))"
  let ?pw = "GetSecretsCall ns (Name (PasswordSecret cfg)) (Key (PasswordSecret cfg))"
  show ?thesis
  proof (cases "secret_store e ns (Name (UsernameSecret cfg)) (Key (UsernameSecret cfg))")
    case (Inl err)
    with tn show ?thesis by (simp add: CreateMySQLDBSession_def GetSecrets_def)
  next
    case un: (Inr u)
    show ?thesis
    proof (cases "secret_store e ns (Name (PasswordSecret cfg)) (Key (PasswordSecret cfg))")
      case (Inl err)
      with tn un show ?thesis by (simp add: CreateMySQLDBSession_def GetSecrets_def)
    next
      case pw: (Inr p)
      let ?settings = "\<lambda>opts. \<lparr>User = u, Password = p,
          Host = hostname e (DatabaseConfig.truncate cfg),
          Database = DatabaseConfig.Database cfg, Options = Some (opts::addr)\<rparr>"
      obtain w3 ow where W:
        "calls w3 = calls w @ [?un, ?pw]"
        "gomaps w3 ow = (case MySQLConfig.Options cfg of Some a \<Rightarrow> gomaps w a | None \<Rightarrow> Map.empty)"
        "tlsConfigRegistry w3 = tlsConfigRegistry w"
        "CreateMySQLDBSession e ns (Some cfg) pool w =
          (case mysql_ca_cert e ns cfg ow w3 of
             (w4, Some r) \<Rightarrow> (w4, r)
           | (w4, None) \<Rightarrow> mysql_open e (?settings ow) pool w4)"
        using CreateMySQLDBSession_unfold [OF tn un pw, where pool = pool and w = w]
        by (elim exE conjE) (rule that; assumption)
      obtain v3 ov where V:
        "calls v3 = calls v @ [?un, ?pw]"
        "gomaps v3 ov = (case MySQLConfig.Options cfg of Some a \<Rightarrow> gomaps v a | None \<Rightarrow> Map.empty)"
        "tlsConfigRegistry v3 = tlsConfigRegistry v"
        "CreateMySQLDBSession e ns (Some cfg) pool v =
          (case mysql_ca_cert e ns cfg ov v3 of
             (w4, Some r) \<Rightarrow> (w4, r)
           | (w4, None) \<Rightarrow> mysql_open e (?settings ov) pool w4)"
        using CreateMySQLDBSession_unfold [OF tn un pw, where pool = pool and w = v]
        by (elim exE conjE) (rule that; assumption)
      let ?cw = "mysql_ca_cert e ns cfg ow w3"
      let ?cv = "mysql_ca_cert e ns cfg ov v3"
      define cm where "cm = calls_made w3 (fst ?cw)"
      have same_err: "snd ?cv = snd ?cw"
        and same_cm: "calls_made v3 (fst ?cv) = cm"
        using mysql_ca_cert_same [of e ns cfg ov v3 ow w3] by (simp_all only: cm_def)
      have cw: "calls (fst ?cw) = calls w @ (?un # ?pw # cm)"
        using mysql_ca_cert_grow [of e ns cfg ow w3] unfolding W(1) cm_def
        by (simp only: append_assoc append_Cons append_Nil)
      have cv: "calls (fst ?cv) = calls v @ (?un # ?pw # cm)"
        using mysql_ca_cert_grow [of e ns cfg ov v3] unfolding V(1) same_cm
        by (simp only: append_assoc append_Cons append_Nil)
      show ?thesis
      proof (cases "snd ?cw")
        case (Some r)
        have rw: "CreateMySQLDBSession e ns (Some cfg) pool w = (fst ?cw, r)"
          using Some unfolding W(4) by (cases ?cw) simp
        have rv: "CreateMySQLDBSession e ns (Some cfg) pool v = (fst ?cv, r)"
          using Some same_err unfolding V(4) by (cases ?cv) simp
        show ?thesis
          unfolding rw rv fst_conv snd_conv
          using calls_made_append [OF cw] calls_made_append [OF cv] by (simp only: simp_thms)
      next
        case None
        have rw: "CreateMySQLDBSession e ns (Some cfg) pool w =
            mysql_open e (?settings ow) pool (fst ?cw)"
          using None unfolding W(4) by (cases ?cw) simp
        have rv: "CreateMySQLDBSession e ns (Some cfg) pool v =
            mysql_open e (?settings ov) pool (fst ?cv)"
          using None same_err unfolding V(4) by (cases ?cv) simp
        have gw: "gomaps (fst ?cw) ow =
            (if CaCertSecret cfg \<noteq> SecretKeySelector_zero
             then (gomaps w3 ow)(''tls'' \<mapsto> ''argo-ca-cert'') else gomaps w3 ow)"
          using mysql_ca_cert_gomaps [of e ns cfg ow w3] None by simp
        have gv: "gomaps (fst ?cv) ov =
            (if CaCertSecret cfg \<noteq> SecretKeySelector_zero
             then (gomaps v3 ov)(''tls'' \<mapsto> ''argo-ca-cert'') else gomaps v3 ov)"
          using mysql_ca_cert_gomaps [of e ns cfg ov v3] None same_err by simp
        have "gomaps (fst ?cv) ov = gomaps (fst ?cw) ow"
        proof (cases "MySQLConfig.Options cfg")
          case None
          then show ?thesis unfolding gw gv W(2) V(2) by simp
        next
          case (Some a)
          from agree [OF Some] show ?thesis
            unfolding gw gv W(2) V(2) using Some by simp
        qed
        then have url: "read_url (fst ?cw) (?settings ow) = read_url (fst ?cv) (?settings ov)"
          by (simp add: read_url_def)
        have reg3: "if CaCertSecret cfg \<noteq> SecretKeySelector_zero
              then (tlsConfigRegistry v3)(''argo-ca-cert'' := None) =
                   (tlsConfigRegistry w3)(''argo-ca-cert'' := None)
              else tlsConfigRegistry v3 = tlsConfigRegistry w3"
          using reg unfolding W(3) V(3) .
        have regs: "tlsConfigRegistry (fst ?cw) = tlsConfigRegistry (fst ?cv)"
          using mysql_ca_cert_registry_same [OF None reg3, of ov] by (rule sym)
        from mysql_open_same [OF url regs, of e pool]
        have res: "snd (mysql_open e (?settings ov) pool (fst ?cv)) =
                   snd (mysql_open e (?settings ow) pool (fst ?cw))"
          and om: "calls_made (fst ?cv) (fst (mysql_open e (?settings ov) pool (fst ?cv))) =
                   calls_made (fst ?cw) (fst (mysql_open e (?settings ow) pool (fst ?cw)))"
          by (simp_all only:)
        have mw: "calls (fst (mysql_open e (?settings ow) pool (fst ?cw))) =
            calls w @ ((?un # ?pw # cm) @
              calls_made (fst ?cw) (fst (mysql_open e (?settings ow) pool (fst ?cw))))"
          using mysql_open_grow [of e "?settings ow" pool "fst ?cw"]
          unfolding cw append_assoc .
        have mv: "calls (fst (mysql_open e (?settings ov) pool (fst ?cv))) =
            calls v @ ((?un # ?pw # cm) @
              calls_made (fst ?cw) (fst (mysql_open e (?settings ow) pool (fst ?cw))))"
          using mysql_open_grow [of e "?settings ov" pool "fst ?cv"]
          unfolding cv append_assoc om .
        show ?thesis
          unfolding rw rv
          using res calls_made_append [OF mw] calls_made_append [OF mv] by (simp only: simp_thms)
      qed
    qed
  qed
qed

lemma CreateMySQLDBSession_frame:
  "(k \<noteq> ''argo-ca-cert'' \<longrightarrow>
      tlsConfigRegistry (fst (CreateMySQLDBSession e ns (Some cfg) pool w)) k = tlsConfigRegistry w k) \<and>
   (CaCertSecret cfg = SecretKeySelector_zero \<longrightarrow>
      tlsConfigRegistry (fst (CreateMySQLDBSession e ns (Some cfg) pool w)) = tlsConfigRegistry w) \<and>
   (a < next_addr w \<longrightarrow> MySQLConfig.Options cfg \<noteq> Some a \<longrightarrow>
      gomaps (fst (CreateMySQLDBSession e ns (Some cfg) pool w)) a = gomaps w a)"
proof (cases "TableName cfg = []")
  case True
  then show ?thesis by (simp add: CreateMySQLDBSession_def)
next
  case tn: False
  show ?thesis
  proof (cases "secret_store e ns (Name (UsernameSecret cfg)) (Key (UsernameSecret cfg))")
    case (Inl err)
    with tn show ?thesis by (simp add: CreateMySQLDBSession_def GetSecrets_def log_call_def)
  next
    case un: (Inr u)
    show ?thesis
    proof (cases "secret_store e ns (Name (PasswordSecret cfg)) (Key (PasswordSecret cfg))")
      case (Inl err)
      with tn un show ?thesis
        by (simp add: CreateMySQLDBSession_def GetSecrets_def log_call_def)
    next
      case pw: (Inr p)
      let ?settings = "\<lambda>opts. \<lparr>User = u, Password = p,
          Host = hostname e (DatabaseConfig.truncate cfg),
          Database = DatabaseConfig.Database cfg, Options = Some (opts::addr)\<rparr>"
      obtain w3 ow where W:
        "case MySQLConfig.Options cfg of Some a \<Rightarrow> ow = a | None \<Rightarrow> ow = next_addr w"
        "\<forall>a. a \<noteq> next_addr w \<longrightarrow> gomaps w3 a = gomaps w a"
        "tlsConfigRegistry w3 = tlsConfigRegistry w"
        "CreateMySQLDBSession e ns (Some cfg) pool w =
          (case mysql_ca_cert e ns cfg ow w3 of
             (w4, Some r) \<Rightarrow> (w4, r)
           | (w4, None) \<Rightarrow> mysql_open e (?settings ow) pool w4)"
        using CreateMySQLDBSession_unfold [OF tn un pw, where pool = pool and w = w]
        by (elim exE conjE) (rule that; assumption)
      let ?cw = "mysql_ca_cert e ns cfg ow w3"
      let ?run = "CreateMySQLDBSession e ns (Some cfg) pool w"
      have fin: "(a \<noteq> ow \<longrightarrow> gomaps (fst ?run) a = gomaps (fst ?cw) a) \<and>
                 tlsConfigRegistry (fst ?run) = tlsConfigRegistry (fst ?cw)"
        unfolding W(4) using mysql_open_frame [of "?settings ow" a e pool "fst ?cw"]
        by (cases ?cw) (simp split: option.splits)
      have g: "a \<noteq> ow \<longrightarrow> gomaps (fst ?cw) a = gomaps w3 a"
        using mysql_ca_cert_gomaps [of e ns cfg ow w3] by (simp split: if_splits)
      have c1: "k \<noteq> ''argo-ca-cert'' \<longrightarrow> tlsConfigRegistry (fst ?run) k = tlsConfigRegistry w k"
        using fin mysql_ca_cert_registry [of k e ns cfg ow w3] W(3) by simp
      have c2: "CaCertSecret cfg = SecretKeySelector_zero \<longrightarrow>
          tlsConfigRegistry (fst ?run) = tlsConfigRegistry w"
        using fin mysql_ca_cert_registry [of k e ns cfg ow w3] W(3) by simp
      have c3: "a < next_addr w \<longrightarrow> MySQLConfig.Options cfg \<noteq> Some a \<longrightarrow>
          gomaps (fst ?run) a = gomaps w a"
        using fin g W(1) W(2) by (auto split: option.splits)
      from c1 c2 c3 show ?thesis by (intro conjI)
    qed
  qed
qed

lemma CreatePostGresDBSession_frame:
  "tlsConfigRegistry (fst (CreatePostGresDBSession e ns cfgp pool w)) = tlsConfigRegistry w \<and>
   (a < next_addr w \<longrightarrow>
      gomaps (fst (CreatePostGresDBSession e ns cfgp pool w)) a = gomaps w a)"
  by (simp add: CreatePostGresDBSession_def GetSecrets_def Open_def new_map_def log_call_def Let_def
        split: sum.splits option.splits prod.splits)

lemma CreatePostGresDBSession_same:
  "tlsConfigRegistry v = tlsConfigRegistry w \<Longrightarrow>
   snd (CreatePostGresDBSession e ns cfgp pool v) = snd (CreatePostGresDBSession e ns cfgp pool w) \<and>
   calls_made v (fst (CreatePostGresDBSession e ns cfgp pool v)) =
     calls_made w (fst (CreatePostGresDBSession e ns cfgp pool w))"
  by (simp add: CreatePostGresDBSession_def GetSecrets_def Open_def read_url_def new_map_def Let_def
        calls_made_def log_call_def split: sum.splits option.splits prod.splits)

lemma CreateDBSession_dispatch:
  "CreateDBSession e ns pc w =
     (case pc of
        None \<Rightarrow> (w, Return (None, Some (InternalError ''Persistence config is not found'')))
      | Some c \<Rightarrow>
          (case PostgreSQL c of
             Some pg \<Rightarrow> CreatePostGresDBSession e ns (Some pg) (ConnectionPool c) w
           | None \<Rightarrow>
          (case MySQL c of
             Some my \<Rightarrow> CreateMySQLDBSession e ns (Some my) (ConnectionPool c) w
           | None \<Rightarrow> (w, Return (None, Some (Errorf ''no databases are configured''))))))"
  by (simp add: CreateDBSession_def)

lemma CreateDBSession_same:
  assumes opts: "options_content pc v = options_content pc w"
    and reg: "registry_seen pc v = registry_seen pc w"
  shows "snd (CreateDBSession e ns pc v) = snd (CreateDBSession e ns pc w) \<and>
         calls_made v (fst (CreateDBSession e ns pc v)) =
           calls_made w (fst (CreateDBSession e ns pc w))"
proof (cases pc)
  case None
  then show ?thesis by (simp add: CreateDBSession_def calls_made_def)
next
  case (Some c)
  show ?thesis
  proof (cases "PostgreSQL c")
    case pg: (Some pg)
    have "tlsConfigRegistry v = tlsConfigRegistry w"
      using reg by (simp add: registry_seen_def uses_ca_cert_def Some pg)
    then show ?thesis
      unfolding CreateDBSession_dispatch Some pg option.case
      by (rule CreatePostGresDBSession_same)
  next
    case nopg: None
    show ?thesis
    proof (cases "MySQL c")
      case None
      then show ?thesis
        by (simp add: CreateDBSession_def Some nopg calls_made_def)
    next
      case my: (Some my)
      have a: "gomaps v a = gomaps w a" if "MySQLConfig.Options my = Some a" for a
        using opts that by (simp add: options_content_def options_addr_def Some nopg my)
      have r: "if CaCertSecret my \<noteq> SecretKeySelector_zero
              then (tlsConfigRegistry v)(''argo-ca-cert'' := None) =
                   (tlsConfigRegistry w)(''argo-ca-cert'' := None)
              else tlsConfigRegistry v = tlsConfigRegistry w"
        using reg by (simp add: registry_seen_def uses_ca_cert_def Some nopg my split: if_splits)
      show ?thesis
        unfolding CreateDBSession_dispatch Some nopg my option.case
        using a r by (rule CreateMySQLDBSession_same)
    qed
  qed
qed

lemma CreateDBSession_frame:
  "(k \<noteq> ''argo-ca-cert'' \<longrightarrow>
      tlsConfigRegistry (fst (CreateDBSession e ns pc w)) k = tlsConfigRegistry w k) \<and>
   (\<not> uses_ca_cert pc \<longrightarrow>
      tlsConfigRegistry (fst (CreateDBSession e ns pc w)) = tlsConfigRegistry w) \<and>
   (a < next_addr w \<longrightarrow> options_addr pc \<noteq> Some a \<longrightarrow>
      gomaps (fst (CreateDBSession e ns pc w)) a = gomaps w a)"
proof (cases pc)
  case None
  then show ?thesis by (simp add: CreateDBSession_def)
next
  case (Some c')
  show ?thesis
  proof (cases "PostgreSQL c'")
    case pg: (Some pg)
    show ?thesis
      unfolding CreateDBSession_dispatch Some pg option.case
      using CreatePostGresDBSession_frame [of e ns "Some pg" "ConnectionPool c'" w a] pg
      by auto
  next
    case nopg: None
    show ?thesis
    proof (cases "MySQL c'")
      case None
      then show ?thesis by (auto simp add: CreateDBSession_def Some nopg)
    next
      case my: (Some my')
      show ?thesis
        unfolding CreateDBSession_dispatch Some nopg my option.case
        using CreateMySQLDBSession_frame [of k e ns my' "ConnectionPool c'" w a] my
        by (auto simp add: uses_ca_cert_def options_addr_def Some nopg)
    qed
  qed
qed

lemma CreateDBSession_registry_seen:
  "registry_seen pc (fst (CreateDBSession e ns pc w)) = registry_seen pc w"
proof (cases "uses_ca_cert pc")
  case True
  have "((tlsConfigRegistry (fst (CreateDBSession e ns pc w)))(''argo-ca-cert'' := None)) k =
        ((tlsConfigRegistry w)(''argo-ca-cert'' := None)) k" for k
    using CreateDBSession_frame [of k e ns pc w 0] by simp
  then show ?thesis using True by (auto simp add: registry_seen_def)
next
  case False
  then show ?thesis
    using CreateDBSession_frame [of "[]" e ns pc w 0] by (simp add: registry_seen_def)
qed

section \<open>Determinism and shared state\<close>




section \<open>Which backend is selected\<close>

text \<open>
  C10. When the PostgreSQL configuration is set, \<open>CreateDBSession\<close> is the PostgreSQL
  builder on it and \<open>GetTableName\<close> reads its table name, whatever the MySQL
  configuration is: setting, changing or removing the MySQL configuration changes
  neither result. \<open>GetTableName\<close> returns the selected table name with a nil error when
  that name is not empty, and returns an error exactly when it is empty; with no backend
  set the name is the empty default and the error is returned.
\<close>

theorem both_backends_postgres_wins:
  "(PostgreSQL pc = Some pg \<longrightarrow>
      CreateDBSession e ns (Some pc) w = CreatePostGresDBSession e ns (Some pg) (ConnectionPool pc) w \<and>
      CreateDBSession e ns (Some (pc\<lparr>MySQL := m\<rparr>)) w = CreateDBSession e ns (Some pc) w \<and>
      GetTableName (Some (pc\<lparr>MySQL := m\<rparr>)) = GetTableName (Some pc) \<and>
      (TableName pg \<noteq> [] \<longrightarrow> GetTableName (Some pc) = Return (TableName pg, None)) \<and>
      (returns_error (GetTableName (Some pc)) \<longleftrightarrow> TableName pg = [])) \<and>
   (PostgreSQL pc = None \<and> MySQL pc = Some my \<longrightarrow>
      (TableName my \<noteq> [] \<longrightarrow> GetTableName (Some pc) = Return (TableName my, None)) \<and>
      (returns_error (GetTableName (Some pc)) \<longleftrightarrow> TableName my = [])) \<and>
   (PostgreSQL pc = None \<and> MySQL pc = None \<longrightarrow> returns_error (GetTableName (Some pc)))"
  by (simp add: CreateDBSession_def GetTableName_def Let_def)

theorem both_backends_postgres_wins_witness:
  "CreateDBSession env0 ''argo'' (Some (pc0\<lparr>PostgreSQL := Some pg0\<rparr>)) world0 =
     CreatePostGresDBSession env0 ''argo'' (Some pg0) (Some pool0) world0 \<and>
   GetTableName (Some (pc0\<lparr>PostgreSQL := Some (pg0\<lparr>TableName := ''pg_wf''\<rparr>)\<rparr>)) = Return (''pg_wf'', None) \<and>
   returns_error (GetTableName (Some (pc0\<lparr>PostgreSQL := Some (pg0\<lparr>TableName := []\<rparr>)\<rparr>))) \<and>
   GetTableName (Some pc0) = Return (''wf'', None) \<and>
   returns_error (GetTableName (Some (pc0\<lparr>MySQL := None\<rparr>)))"
  using both_backends_postgres_wins [of "pc0\<lparr>PostgreSQL := Some pg0\<rparr>" pg0 env0 "''argo''" world0 "Some my0"]
    both_backends_postgres_wins [of "pc0\<lparr>PostgreSQL := Some (pg0\<lparr>TableName := ''pg_wf''\<rparr>)\<rparr>" "pg0\<lparr>TableName := ''pg_wf''\<rparr>" env0 "''argo''" world0 "Some my0"]
    both_backends_postgres_wins [of "pc0\<lparr>PostgreSQL := Some (pg0\<lparr>TableName := []\<rparr>)\<rparr>" "pg0\<lparr>TableName := []\<rparr>" env0 "''argo''" world0 "Some my0"]
    both_backends_postgres_wins [of pc0 _ env0 "''argo''" world0 _ my0]
    both_backends_postgres_wins [of "pc0\<lparr>MySQL := None\<rparr>" _ env0 "''argo''" world0]
  by (simp add: pc0_def my0_def)

end
